theory Spec2Isabelle
  imports Main
begin

section \<open>Project import/export service of go-gitlab\<close>

text \<open>
  A shallow embedding of \<^verbatim>\<open>project_import_export.go\<close>. Every operation of
  \<^verbatim>\<open>ProjectImportExportService\<close> becomes a function that takes its collaborators (the
  shared client, the file system, the random boundary) as arguments and returns its Go
  result together with the list of effects it performed, in order. An \<^verbatim>\<open>err != nil\<close>
  branch of the source is a branch of the model; a nil dereference is the outcome
  \<open>Panicked\<close>.
\<close>

subsection \<open>Values\<close>

type_synonym bytes = string

text \<open>
  Go's \<^verbatim>\<open>error\<close> values. \<open>ErrInvalid\<close> is \<^verbatim>\<open>os.ErrInvalid\<close>, which the methods of
  \<^verbatim>\<open>*os.File\<close> return on a nil receiver; \<open>ErrFinishedPart\<close> is the error of a write to
  a multipart part that has been closed; every other error is \<open>Err\<close> with its message.
\<close>

datatype error = ErrInvalid | ErrFinishedPart | Err string

text \<open>A call either returns or panics (here: dereferences nil).\<close>

datatype 'a outcome = Returned 'a | Panicked

text \<open>\<^verbatim>\<open>*time.Time\<close> is a point in time or nil; the instant is kept as seconds.\<close>

type_synonym Time = int

record ImportStatus =
  is_ID :: int
  is_Description :: string
  is_Name :: string
  is_NameWithNamespace :: string
  is_Path :: string
  is_PathWithNamespace :: string
  is_CreateAt :: "Time option"
  is_ImportStatus :: string

record ExportStatus =
  es_ID :: int
  es_Description :: string
  es_Name :: string
  es_NameWithNamespace :: string
  es_Path :: string
  es_PathWithNamespace :: string
  es_CreatedAt :: "Time option"
  es_ExportStatus :: string
  es_Message :: string
  es_Links_APIURL :: string
  es_Links_WebURL :: string

text \<open>The zero values that \<^verbatim>\<open>new(ImportStatus)\<close> and \<^verbatim>\<open>new(ExportStatus)\<close> allocate.\<close>

definition new_ImportStatus :: ImportStatus where
  "new_ImportStatus =
     \<lparr>is_ID = 0, is_Description = [], is_Name = [], is_NameWithNamespace = [],
      is_Path = [], is_PathWithNamespace = [], is_CreateAt = None, is_ImportStatus = []\<rparr>"

definition new_ExportStatus :: ExportStatus where
  "new_ExportStatus =
     \<lparr>es_ID = 0, es_Description = [], es_Name = [], es_NameWithNamespace = [],
      es_Path = [], es_PathWithNamespace = [], es_CreatedAt = None, es_ExportStatus = [],
      es_Message = [], es_Links_APIURL = [], es_Links_WebURL = []\<rparr>"

record ScheduleExportOptions =
  Description :: "string option"
  Upload_URL :: "string option"
  Upload_HTTPMethod :: "string option"

text \<open>
  \<^verbatim>\<open>ImportFileOptions\<close>: every field is a pointer, \<open>None\<close> is nil. The type
  \<^verbatim>\<open>CreateProjectOptions\<close> is declared elsewhere in the package and stays a type
  parameter.
\<close>

record 'p ImportFileOptions =
  Namespace :: "string option"
  Name :: "string option"
  File :: "string option"
  Path :: "string option"
  Overwrite :: "bool option"
  OverrideParams :: "'p option"

subsection \<open>The shared client\<close>

text \<open>
  The project reference \<^verbatim>\<open>pid interface{}\<close>: an int, a string, or a value of any other
  dynamic type.
\<close>

datatype pid = IntID int | StringID string | OtherID

record Response =
  StatusCode :: int

text \<open>
  The request that \<^verbatim>\<open>NewRequest\<close> hands back: its method, its relative path, the body set
  with \<^verbatim>\<open>SetBody\<close> and the header fields.
\<close>

record Request =
  Method :: string
  URL :: string
  Body :: "bytes option"
  Header :: "string \<rightharpoonup> string"

type_synonym RequestOptionFunc = "Request \<Rightarrow> error + Request"

text \<open>The \<^verbatim>\<open>opt\<close> argument of \<^verbatim>\<open>NewRequest\<close>: nil, or the export options (a pointer).\<close>

datatype reqopt = NoOpt | ExportOpt "ScheduleExportOptions option"

text \<open>What the transport answers to a request: the response, the error, the body served.\<close>

record reply =
  rp_resp :: "Response option"
  rp_err :: "error option"
  rp_body :: bytes

text \<open>
  The collaborators of the service that live outside this file, taken as parameters:
  \<^verbatim>\<open>parseID\<close>, \<^verbatim>\<open>pathEscape\<close> and \<^verbatim>\<open>NewRequest\<close> of the shared client, the error (if
  any) of \<^verbatim>\<open>SetBody\<close> on a request, the transport under \<^verbatim>\<open>Do\<close>, and the JSON decoders
  of the two status structs.
\<close>

record client =
  parseID :: "pid \<Rightarrow> error + string"
  pathEscape :: "string \<Rightarrow> string"
  NewRequest :: "string \<Rightarrow> string \<Rightarrow> reqopt \<Rightarrow> RequestOptionFunc list \<Rightarrow> error + Request"
  SetBody_error :: "Request \<Rightarrow> bytes \<Rightarrow> error option"
  transport :: "Request \<Rightarrow> reply"
  decode_ExportStatus :: "bytes \<Rightarrow> error + ExportStatus"
  decode_ImportStatus :: "bytes \<Rightarrow> error + ImportStatus"

text \<open>
  The effects an operation performs, in the order it performs them: what it prints, the
  file it opens and closes, and its calls to the shared client and to the request.
\<close>

datatype event =
    EvOpen string
  | EvPrintln error
  | EvClose "string option"
  | EvNewRequest string string
  | EvSetBody bytes
  | EvSetHeader string string
  | EvDo Request

fun is_request_call :: "event \<Rightarrow> bool" where
  "is_request_call (EvNewRequest m u) = True"
| "is_request_call (EvSetBody b) = True"
| "is_request_call (EvSetHeader k v) = True"
| "is_request_call (EvDo r) = True"
| "is_request_call _ = False"

definition MethodGet :: string where
  "MethodGet = ''GET''"

definition MethodPost :: string where
  "MethodPost = ''POST''"

text \<open>
  Modelled from the spec: \<^verbatim>\<open>Do(request, responseSink) -> Response | Error\<close> of the shared
  client, whose code is not in this file. The transport answers the request; on an error
  the sink is left as it was; otherwise the body served goes to the sink. With a nil sink
  the body is dropped.
\<close>

definition Do_nil :: "client \<Rightarrow> Request \<Rightarrow> Response option \<times> error option" where
  "Do_nil c req = (let r = transport c req in (rp_resp r, rp_err r))"

text \<open>
  Modelled from the spec: \<^verbatim>\<open>Do\<close> with a \<^verbatim>\<open>*bytes.Buffer\<close> sink, which receives the bytes
  served, unchanged, after what it already holds.
\<close>

definition Do_Buffer :: "client \<Rightarrow> Request \<Rightarrow> bytes \<Rightarrow> bytes \<times> Response option \<times> error option" where
  "Do_Buffer c req b =
     (let r = transport c req in
      case rp_err r of
        Some err \<Rightarrow> (b, rp_resp r, Some err)
      | None \<Rightarrow> (b @ rp_body r, rp_resp r, None))"

text \<open>
  Modelled from the spec: \<^verbatim>\<open>Do\<close> with a status struct as sink, which is filled by decoding
  the JSON object served; a body that does not decode is an error.
\<close>

definition Do_ExportStatus ::
  "client \<Rightarrow> Request \<Rightarrow> ExportStatus \<Rightarrow> ExportStatus \<times> Response option \<times> error option" where
  "Do_ExportStatus c req es =
     (let r = transport c req in
      case rp_err r of
        Some err \<Rightarrow> (es, rp_resp r, Some err)
      | None \<Rightarrow>
          (case decode_ExportStatus c (rp_body r) of
             Inl err \<Rightarrow> (es, rp_resp r, Some err)
           | Inr es' \<Rightarrow> (es', rp_resp r, None)))"

definition Do_ImportStatus ::
  "client \<Rightarrow> Request \<Rightarrow> ImportStatus \<Rightarrow> ImportStatus \<times> Response option \<times> error option" where
  "Do_ImportStatus c req st =
     (let r = transport c req in
      case rp_err r of
        Some err \<Rightarrow> (st, rp_resp r, Some err)
      | None \<Rightarrow>
          (case decode_ImportStatus c (rp_body r) of
             Inl err \<Rightarrow> (st, rp_resp r, Some err)
           | Inr st' \<Rightarrow> (st', rp_resp r, None)))"

subsection \<open>Export operations and import status\<close>

text \<open>
  \<^verbatim>\<open>ScheduleExport\<close>: the result is \<^verbatim>\<open>(*Response, error)\<close>, beside it the effects.
\<close>

definition ScheduleExport ::
  "client \<Rightarrow> pid \<Rightarrow> ScheduleExportOptions option \<Rightarrow> RequestOptionFunc list \<Rightarrow>
     (Response option \<times> error option) \<times> event list" where
  "ScheduleExport c p opt options =
     (case parseID c p of
        Inl err \<Rightarrow> ((None, Some err), [])
      | Inr project \<Rightarrow>
          (let u = ''projects/'' @ pathEscape c project @ ''/export'' in
           case NewRequest c MethodPost u (ExportOpt opt) options of
             Inl err \<Rightarrow> ((None, Some err), [EvNewRequest MethodPost u])
           | Inr req \<Rightarrow> (Do_nil c req, [EvNewRequest MethodPost u, EvDo req])))"

definition ExportStatus ::
  "client \<Rightarrow> pid \<Rightarrow> RequestOptionFunc list \<Rightarrow>
     (ExportStatus option \<times> Response option \<times> error option) \<times> event list" where
  "ExportStatus c p options =
     (case parseID c p of
        Inl err \<Rightarrow> ((None, None, Some err), [])
      | Inr project \<Rightarrow>
          (let u = ''projects/'' @ pathEscape c project @ ''/export'' in
           case NewRequest c MethodGet u NoOpt options of
             Inl err \<Rightarrow> ((None, None, Some err), [EvNewRequest MethodGet u])
           | Inr req \<Rightarrow>
               (case Do_ExportStatus c req new_ExportStatus of
                  (es, resp, err) \<Rightarrow>
                    ((if err \<noteq> None then (None, resp, err) else (Some es, resp, err)),
                     [EvNewRequest MethodGet u, EvDo req]))))"

text \<open>
  \<^verbatim>\<open>ExportDownload\<close>: the bytes returned are those of the buffer \<^verbatim>\<open>b\<close>, which starts empty
  and is the sink of \<^verbatim>\<open>Do\<close>; \<open>None\<close> is the nil slice of the error returns.
\<close>

definition ExportDownload ::
  "client \<Rightarrow> pid \<Rightarrow> RequestOptionFunc list \<Rightarrow>
     (bytes option \<times> Response option \<times> error option) \<times> event list" where
  "ExportDownload c p options =
     (case parseID c p of
        Inl err \<Rightarrow> ((None, None, Some err), [])
      | Inr project \<Rightarrow>
          (let u = ''projects/'' @ pathEscape c project @ ''/export/download'' in
           case NewRequest c MethodGet u NoOpt options of
             Inl err \<Rightarrow> ((None, None, Some err), [EvNewRequest MethodGet u])
           | Inr req \<Rightarrow>
               (case Do_Buffer c req [] of
                  (b, resp, err) \<Rightarrow>
                    ((if err \<noteq> None then (None, resp, err) else (Some b, resp, err)),
                     [EvNewRequest MethodGet u, EvDo req]))))"

definition ImportStatus ::
  "client \<Rightarrow> pid \<Rightarrow> RequestOptionFunc list \<Rightarrow>
     (ImportStatus option \<times> Response option \<times> error option) \<times> event list" where
  "ImportStatus c p options =
     (case parseID c p of
        Inl err \<Rightarrow> ((None, None, Some err), [])
      | Inr project \<Rightarrow>
          (let u = ''projects/'' @ pathEscape c project @ ''/import'' in
           case NewRequest c MethodGet u NoOpt options of
             Inl err \<Rightarrow> ((None, None, Some err), [EvNewRequest MethodGet u])
           | Inr req \<Rightarrow>
               (case Do_ImportStatus c req new_ImportStatus of
                  (st, resp, err) \<Rightarrow>
                    ((if err \<noteq> None then (None, resp, err) else (Some st, resp, err)),
                     [EvNewRequest MethodGet u, EvDo req]))))"

subsection \<open>The local file and the multipart writer\<close>

text \<open>
  An opened \<^verbatim>\<open>*os.File\<close>, as \<^verbatim>\<open>io.Copy\<close> sees it: the chunks its successive reads
  deliver, and the error (if any) that ends the reading instead of end-of-file.
\<close>

record os_File =
  chunks :: "bytes list"
  read_error :: "error option"

text \<open>
  What one call of \<^verbatim>\<open>ImportFile\<close> meets outside the client: \<^verbatim>\<open>os.Open\<close>, the boundary
  that \<^verbatim>\<open>multipart.NewWriter\<close> draws at random, and \<^verbatim>\<open>Stringify\<close> on the override
  parameters.
\<close>

record 'p env =
  os_Open :: "string \<Rightarrow> error + os_File"
  randomBoundary :: string
  Stringify :: "'p \<Rightarrow> string"

definition CRLF :: string where
  "CRLF = [CHR 0x0D, CHR 0x0A]"

definition DQUOTE :: string where
  "DQUOTE = [CHR 0x22]"

text \<open>
  \<^verbatim>\<open>mime/multipart\<close>: a part remembers whether it was closed and the error of its last
  failed write (\<^verbatim>\<open>we\<close>); the writer holds the buffer it writes to (\<^verbatim>\<open>requestBody\<close> of
  the source, a \<^verbatim>\<open>bytes.Buffer\<close>), its boundary and its last part. A part handle is the
  number of the part.
\<close>

record part =
  part_id :: nat
  closed :: bool
  we :: "error option"

record Writer =
  requestBody :: bytes
  boundary :: string
  nparts :: nat
  lastpart :: "part option"

definition NewWriter :: "'p env \<Rightarrow> Writer" where
  "NewWriter env =
     \<lparr>requestBody = [], boundary = randomBoundary env, nparts = 0, lastpart = None\<rparr>"

text \<open>
  \<^verbatim>\<open>bytes.Buffer.Write\<close> on the buffer under the writer: it appends the bytes, and the
  error it returns is always nil.
\<close>

definition body_Write :: "bytes \<Rightarrow> Writer \<Rightarrow> error option \<times> Writer" where
  "body_Write d w = (None, w\<lparr>requestBody := requestBody w @ d\<rparr>)"

text \<open>\<^verbatim>\<open>w.lastpart.close()\<close>, when there is a last part: marks it closed, returns its \<^verbatim>\<open>we\<close>.\<close>

definition part_close :: "Writer \<Rightarrow> error option \<times> Writer" where
  "part_close w =
     (case lastpart w of
        None \<Rightarrow> (None, w)
      | Some p \<Rightarrow> (we p, w\<lparr>lastpart := Some (p\<lparr>closed := True\<rparr>)\<rparr>))"

text \<open>
  \<^verbatim>\<open>CreatePart\<close>: closes the last part, writes the boundary line and the header lines (the
  caller passes them sorted by key, as the library sorts them) in one write, and returns
  the new part; on an error the part returned is nil.
\<close>

definition CreatePart :: "(string \<times> string) list \<Rightarrow> Writer \<Rightarrow> (error + nat) \<times> Writer" where
  "CreatePart header w =
     (case part_close w of
        (Some err, w1) \<Rightarrow> (Inl err, w1)
      | (None, w1) \<Rightarrow>
          (let b = (if lastpart w1 \<noteq> None then CRLF @ ''--'' @ boundary w1 @ CRLF
                    else ''--'' @ boundary w1 @ CRLF)
                   @ concat (map (\<lambda>(k, v). k @ '': '' @ v @ CRLF) header) @ CRLF
           in case body_Write b w1 of
                (Some err, w2) \<Rightarrow> (Inl err, w2)
              | (None, w2) \<Rightarrow>
                  (Inr (nparts w2),
                   w2\<lparr>nparts := Suc (nparts w2),
                      lastpart := Some \<lparr>part_id = nparts w2, closed = False, we = None\<rparr>\<rparr>)))"

text \<open>
  The field and file names the source passes hold no quote and no backslash, so
  \<^verbatim>\<open>escapeQuotes\<close> leaves them as they are.
\<close>

definition CreateFormFile :: "string \<Rightarrow> string \<Rightarrow> Writer \<Rightarrow> (error + nat) \<times> Writer" where
  "CreateFormFile fieldname filename w =
     CreatePart
       [(''Content-Disposition'',
           ''form-data; name='' @ DQUOTE @ fieldname @ DQUOTE @
           ''; filename='' @ DQUOTE @ filename @ DQUOTE),
        (''Content-Type'', ''application/octet-stream'')] w"

definition CreateFormField :: "string \<Rightarrow> Writer \<Rightarrow> (error + nat) \<times> Writer" where
  "CreateFormField fieldname w =
     CreatePart
       [(''Content-Disposition'', ''form-data; name='' @ DQUOTE @ fieldname @ DQUOTE)] w"

text \<open>\<^verbatim>\<open>part.Write\<close>: refused on a closed part; a failed write is remembered in \<^verbatim>\<open>we\<close>.\<close>

definition part_Write :: "nat \<Rightarrow> bytes \<Rightarrow> Writer \<Rightarrow> error option \<times> Writer" where
  "part_Write h d w =
     (case lastpart w of
        None \<Rightarrow> (Some ErrFinishedPart, w)
      | Some p \<Rightarrow>
          (if part_id p \<noteq> h \<or> closed p then (Some ErrFinishedPart, w)
           else case body_Write d w of
                  (Some err, w1) \<Rightarrow> (Some err, w1\<lparr>lastpart := Some (p\<lparr>we := Some err\<rparr>)\<rparr>)
                | (None, w1) \<Rightarrow> (None, w1)))"

text \<open>
  \<^verbatim>\<open>Writer.Close\<close>: closes the last part and writes the closing boundary line; when the
  last part holds an error, that error is returned and the closing line is not written.
\<close>

definition Writer_Close :: "Writer \<Rightarrow> error option \<times> Writer" where
  "Writer_Close w =
     (case part_close w of
        (Some err, w1) \<Rightarrow> (Some err, w1)
      | (None, w1) \<Rightarrow>
          body_Write (CRLF @ ''--'' @ boundary w1 @ ''--'' @ CRLF) (w1\<lparr>lastpart := None\<rparr>))"

text \<open>
  \<^verbatim>\<open>FormDataContentType\<close>: the boundary is quoted when it holds one of the special
  characters of RFC 2045 or a space.
\<close>

definition tspecials :: string where
  "tspecials = ''()<>@,;:'' @ [CHR 0x5C] @ DQUOTE @ ''/[]?= ''"

definition FormDataContentType :: "Writer \<Rightarrow> string" where
  "FormDataContentType w =
     (let b = boundary w;
          b' = (if list_ex (\<lambda>ch. ch \<in> set tspecials) b then DQUOTE @ b @ DQUOTE else b)
      in ''multipart/form-data; boundary='' @ b')"

text \<open>\<^verbatim>\<open>strconv.FormatBool\<close>.\<close>

definition FormatBool :: "bool \<Rightarrow> string" where
  "FormatBool b = (if b then ''true'' else ''false'')"

text \<open>
  \<^verbatim>\<open>io.Copy(dst, src)\<close> from a file into a part: each chunk read is written (an empty
  read writes nothing); the first failed write ends the copy with its error; after the
  last chunk the copy ends with the read error, or with nil at end-of-file. On a nil
  \<^verbatim>\<open>*os.File\<close> the first read fails with \<^verbatim>\<open>os.ErrInvalid\<close>.
\<close>

fun copy_chunks :: "nat \<Rightarrow> bytes list \<Rightarrow> error option \<Rightarrow> Writer \<Rightarrow> error option \<times> Writer" where
  "copy_chunks dst [] rerr w = (rerr, w)"
| "copy_chunks dst (ch # rest) rerr w =
     (if ch = [] then copy_chunks dst rest rerr w
      else case part_Write dst ch w of
             (Some err, w1) \<Rightarrow> (Some err, w1)
           | (None, w1) \<Rightarrow> copy_chunks dst rest rerr w1)"

definition io_Copy :: "nat \<Rightarrow> os_File option \<Rightarrow> Writer \<Rightarrow> error option \<times> Writer" where
  "io_Copy dst src w =
     (case src of
        None \<Rightarrow> (Some ErrInvalid, w)
      | Some f \<Rightarrow> copy_chunks dst (chunks f) (read_error f) w)"

subsection \<open>ImportFile\<close>

text \<open>
  How the encoding part of \<^verbatim>\<open>ImportFile\<close> leaves: it goes on (\<open>EncDone\<close>), it returns
  \<^verbatim>\<open>nil, nil, err\<close> (\<open>EncErr\<close>), or it panics. Each step yields this, the writer after it
  and what it printed.
\<close>

datatype enc = EncDone | EncErr error | EncPanic

type_synonym step = "enc \<times> Writer \<times> event list"

definition and_then :: "step \<Rightarrow> (Writer \<Rightarrow> step) \<Rightarrow> step" where
  "and_then r f =
     (case r of
        (EncDone, w, evs) \<Rightarrow> (case f w of (r', w', evs') \<Rightarrow> (r', w', evs @ evs'))
      | _ \<Rightarrow> r)"

text \<open>
  The file part (lines 193 to 207): a failed \<^verbatim>\<open>CreateFormFile\<close> or \<^verbatim>\<open>io.Copy\<close> is printed
  and returned.
\<close>

definition file_part :: "'p env \<Rightarrow> os_File option \<Rightarrow> step" where
  "file_part env file =
     (case CreateFormFile ''file'' ''group.*.tar.gz'' (NewWriter env) of
        (Inl err, w1) \<Rightarrow> (EncErr err, w1, [EvPrintln err])
      | (Inr fileWriter, w1) \<Rightarrow>
          (case io_Copy fileWriter file w1 of
             (Some err, w2) \<Rightarrow> (EncErr err, w2, [EvPrintln err])
           | (None, w2) \<Rightarrow> (EncDone, w2, [])))"

text \<open>
  A required field, as written for \<^verbatim>\<open>namespace\<close> (lines 210 to 220) and \<^verbatim>\<open>path\<close> (lines
  222 to 232): the part is created first, then the pointer is dereferenced, which panics
  on nil; a failed \<^verbatim>\<open>CreateFormField\<close> or \<^verbatim>\<open>Write\<close> is printed and returned.
\<close>

definition required_field :: "string \<Rightarrow> string option \<Rightarrow> Writer \<Rightarrow> step" where
  "required_field fieldname val w =
     (case CreateFormField fieldname w of
        (Inl err, w1) \<Rightarrow> (EncErr err, w1, [EvPrintln err])
      | (Inr fw, w1) \<Rightarrow>
          (case val of
             None \<Rightarrow> (EncPanic, w1, [])
           | Some v \<Rightarrow>
               (case part_Write fw v w1 of
                  (Some err, w2) \<Rightarrow> (EncErr err, w2, [EvPrintln err])
                | (None, w2) \<Rightarrow> (EncDone, w2, []))))"

text \<open>
  An optional field, as written for \<^verbatim>\<open>name\<close> (lines 234 to 244), \<^verbatim>\<open>overwrite\<close> (lines 246
  to 256) and \<^verbatim>\<open>override_params\<close> (lines 258 to 268): nothing happens on a nil pointer.
  Otherwise a failed \<^verbatim>\<open>CreateFormField\<close> is printed and not returned, and the
  \<^verbatim>\<open>fw.Write\<close> that follows is a call on the nil writer just assigned to \<^verbatim>\<open>fw\<close>, which
  panics; a failed \<^verbatim>\<open>Write\<close> is printed and not returned.
\<close>

definition optional_field :: "string \<Rightarrow> string option \<Rightarrow> Writer \<Rightarrow> step" where
  "optional_field fieldname val w =
     (case val of
        None \<Rightarrow> (EncDone, w, [])
      | Some v \<Rightarrow>
          (case CreateFormField fieldname w of
             (Inl err, w1) \<Rightarrow> (EncPanic, w1, [EvPrintln err])
           | (Inr fw, w1) \<Rightarrow>
               (case part_Write fw v w1 of
                  (Some err, w2) \<Rightarrow> (EncDone, w2, [EvPrintln err])
                | (None, w2) \<Rightarrow> (EncDone, w2, []))))"

text \<open>
  Lines 189 to 271 of \<^verbatim>\<open>ImportFile\<close>: the parts in the order of the source, then
  \<^verbatim>\<open>multiPartWriter.Close()\<close>, whose error the source drops.
\<close>

definition encode :: "'p env \<Rightarrow> os_File option \<Rightarrow> 'p ImportFileOptions \<Rightarrow> step" where
  "encode env file opt =
     and_then (file_part env file) (\<lambda>w.
     and_then (required_field ''namespace'' (Namespace opt) w) (\<lambda>w.
     and_then (required_field ''path'' (Path opt) w) (\<lambda>w.
     and_then (optional_field ''name'' (Name opt) w) (\<lambda>w.
     and_then (optional_field ''overwrite'' (map_option FormatBool (Overwrite opt)) w) (\<lambda>w.
     and_then (optional_field ''override_params''
                 (map_option (Stringify env) (OverrideParams opt)) w) (\<lambda>w.
     (EncDone, snd (Writer_Close w), [])))))))"

text \<open>
  Lines 273 to 293: the request is built and sent. \<^verbatim>\<open>SetBody\<close> and \<^verbatim>\<open>Header.Set\<close> act
  on the request that \<^verbatim>\<open>NewRequest\<close> returned.
\<close>

type_synonym ImportFile_result = "(ImportStatus option \<times> Response option \<times> error option) outcome"

definition submit ::
  "client \<Rightarrow> Writer \<Rightarrow> RequestOptionFunc list \<Rightarrow> ImportFile_result \<times> event list" where
  "submit c w options =
     (case NewRequest c MethodPost ''groups/import'' NoOpt options of
        Inl err \<Rightarrow>
          (Returned (None, None, Some err), [EvNewRequest MethodPost ''groups/import''])
      | Inr req \<Rightarrow>
          (case SetBody_error c req (requestBody w) of
             Some err \<Rightarrow>
               (Returned (None, None, Some err),
                [EvNewRequest MethodPost ''groups/import'', EvSetBody (requestBody w)])
           | None \<Rightarrow>
               (let req1 = req\<lparr>Body := Some (requestBody w)\<rparr>;
                    req2 = req1\<lparr>Header := (Header req1)(''Content-Type'' \<mapsto> FormDataContentType w)\<rparr>
                in case Do_ImportStatus c req2 new_ImportStatus of
                     (status, resp, err) \<Rightarrow>
                       (Returned (if err \<noteq> None then (None, resp, err)
                                  else (Some status, resp, err)),
                        [EvNewRequest MethodPost ''groups/import'',
                         EvSetBody (requestBody w),
                         EvSetHeader ''Content-Type'' (FormDataContentType w),
                         EvDo req2]))))"

text \<open>
  \<^verbatim>\<open>ImportFile\<close>. Line 182 dereferences \<^verbatim>\<open>opt\<close> and \<^verbatim>\<open>opt.File\<close>. A failed \<^verbatim>\<open>os.Open\<close> is
  printed and not returned: the call goes on with a nil file. The deferred
  \<^verbatim>\<open>file.Close()\<close> runs on every way out after line 187, a panic included.
\<close>

definition ImportFile ::
  "client \<Rightarrow> 'p env \<Rightarrow> 'p ImportFileOptions option \<Rightarrow> RequestOptionFunc list \<Rightarrow>
     ImportFile_result \<times> event list" where
  "ImportFile c env opt options =
     (case opt of
        None \<Rightarrow> (Panicked, [])
      | Some opts \<Rightarrow>
          (case File opts of
             None \<Rightarrow> (Panicked, [])
           | Some path \<Rightarrow>
               (let (file, evs0) =
                      (case os_Open env path of
                         Inl err \<Rightarrow> (None, [EvOpen path, EvPrintln err])
                       | Inr f \<Rightarrow> (Some f, [EvOpen path]));
                    closing = [EvClose (map_option (\<lambda>f. path) file)]
                in case encode env file opts of
                     (EncPanic, w, evs) \<Rightarrow> (Panicked, evs0 @ evs @ closing)
                   | (EncErr err, w, evs) \<Rightarrow>
                       (Returned (None, None, Some err), evs0 @ evs @ closing)
                   | (EncDone, w, evs) \<Rightarrow>
                       (case submit c w options of
                          (res, evs1) \<Rightarrow> (res, evs0 @ evs @ evs1 @ closing)))))"

subsection \<open>The multipart body as the interface describes it\<close>

text \<open>
  The parts of a form: a file part with its field name, file name and content, or a field
  part with its name and text. \<open>multipart_body\<close> is the wire form of a list of parts under
  a boundary: each part after its boundary line and header lines, then the closing line.
\<close>

datatype mpart = FilePart string string bytes | FieldPart string bytes

fun part_header :: "mpart \<Rightarrow> bytes" where
  "part_header (FilePart fieldname filename content) =
     ''Content-Disposition: form-data; name='' @ DQUOTE @ fieldname @ DQUOTE @
     ''; filename='' @ DQUOTE @ filename @ DQUOTE @ CRLF @
     ''Content-Type: application/octet-stream'' @ CRLF"
| "part_header (FieldPart fieldname v) =
     ''Content-Disposition: form-data; name='' @ DQUOTE @ fieldname @ DQUOTE @ CRLF"

fun part_content :: "mpart \<Rightarrow> bytes" where
  "part_content (FilePart fieldname filename content) = content"
| "part_content (FieldPart fieldname v) = v"

fun part_name :: "mpart \<Rightarrow> string" where
  "part_name (FilePart fieldname filename content) = fieldname"
| "part_name (FieldPart fieldname v) = fieldname"

fun render_parts :: "string \<Rightarrow> bool \<Rightarrow> mpart list \<Rightarrow> bytes" where
  "render_parts b first [] = []"
| "render_parts b first (p # ps) =
     (if first then [] else CRLF) @ ''--'' @ b @ CRLF @ part_header p @ CRLF @
     part_content p @ render_parts b False ps"

definition multipart_body :: "string \<Rightarrow> mpart list \<Rightarrow> bytes" where
  "multipart_body b ps = render_parts b True ps @ CRLF @ ''--'' @ b @ ''--'' @ CRLF"

text \<open>
  The parts of an import submission in the order of the interface: the file, the
  namespace, the path, then the name, the overwrite flag and the override parameters, each
  of the last three only when it is set.
\<close>

definition optional_part :: "string \<Rightarrow> string option \<Rightarrow> mpart list" where
  "optional_part fieldname val = (case val of None \<Rightarrow> [] | Some v \<Rightarrow> [FieldPart fieldname v])"

definition submission_parts ::
  "('p \<Rightarrow> string) \<Rightarrow> 'p ImportFileOptions \<Rightarrow> bytes \<Rightarrow> string \<Rightarrow> string \<Rightarrow> mpart list" where
  "submission_parts str opt content ns pa =
     [FilePart ''file'' ''group.*.tar.gz'' content,
      FieldPart ''namespace'' ns,
      FieldPart ''path'' pa]
     @ optional_part ''name'' (Name opt)
     @ optional_part ''overwrite''
         (case Overwrite opt of None \<Rightarrow> None | Some True \<Rightarrow> Some ''true'' | Some False \<Rightarrow> Some ''false'')
     @ optional_part ''override_params'' (map_option str (OverrideParams opt))"

subsection \<open>Reading the effects\<close>

text \<open>
  The calls an operation made, read off its effects: the method and path of every
  \<^verbatim>\<open>NewRequest\<close>, the bodies given to \<^verbatim>\<open>SetBody\<close>, the header fields set, the requests
  handed to \<^verbatim>\<open>Do\<close>, and the errors printed.
\<close>

fun new_requests :: "event list \<Rightarrow> (string \<times> string) list" where
  "new_requests [] = []"
| "new_requests (EvNewRequest m u # es) = (m, u) # new_requests es"
| "new_requests (e # es) = new_requests es"

fun bodies_set :: "event list \<Rightarrow> bytes list" where
  "bodies_set [] = []"
| "bodies_set (EvSetBody b # es) = b # bodies_set es"
| "bodies_set (e # es) = bodies_set es"

fun headers_set :: "event list \<Rightarrow> (string \<times> string) list" where
  "headers_set [] = []"
| "headers_set (EvSetHeader k v # es) = (k, v) # headers_set es"
| "headers_set (e # es) = headers_set es"

fun requests_done :: "event list \<Rightarrow> Request list" where
  "requests_done [] = []"
| "requests_done (EvDo r # es) = r # requests_done es"
| "requests_done (e # es) = requests_done es"

fun printed :: "event list \<Rightarrow> error list" where
  "printed [] = []"
| "printed (EvPrintln err # es) = err # printed es"
| "printed (e # es) = printed es"

subsection \<open>Doubles\<close>

text \<open>
  A client double: it takes string references only, escapes nothing, builds a bare
  request, and its transport serves the same reply to every request.
\<close>

definition double_client :: "reply \<Rightarrow> client" where
  "double_client r =
     \<lparr>parseID = (\<lambda>p. case p of StringID s \<Rightarrow> Inr s | _ \<Rightarrow> Inl (Err ''invalid ID type'')),
      pathEscape = (\<lambda>s. s),
      NewRequest = (\<lambda>m u opt options. Inr \<lparr>Method = m, URL = u, Body = None, Header = Map.empty\<rparr>),
      SetBody_error = (\<lambda>req b. None),
      transport = (\<lambda>req. r),
      decode_ExportStatus = (\<lambda>b. Inr new_ExportStatus),
      decode_ImportStatus = (\<lambda>b. Inr new_ImportStatus)\<rparr>"

definition ok_reply :: reply where
  "ok_reply = \<lparr>rp_resp = Some \<lparr>StatusCode = 200\<rparr>, rp_err = None, rp_body = ''archive bytes''\<rparr>"

text \<open>
  A file system with one archive, one directory (it opens, and reading it fails) and
  nothing else; an environment over it with the boundary \<open>B\<close>.
\<close>

definition double_fs :: "string \<Rightarrow> error + os_File" where
  "double_fs path =
     (if path = ''export.tar.gz'' then Inr \<lparr>chunks = [''ARCHIVE''], read_error = None\<rparr>
      else if path = ''dir'' then Inr \<lparr>chunks = [], read_error = Some (Err ''is a directory'')\<rparr>
      else Inl (Err ''no such file''))"

definition double_env :: "unit env" where
  "double_env =
     \<lparr>os_Open = double_fs, randomBoundary = ''B'', Stringify = (\<lambda>u. ''{}'')\<rparr>"

definition submission :: "unit ImportFileOptions" where
  "submission =
     \<lparr>Namespace = Some ''ns'', Name = None, File = Some ''export.tar.gz'',
      Path = Some ''proj'', Overwrite = None, OverrideParams = None\<rparr>"

subsection \<open>Writer states met while encoding\<close>

text \<open>
  \<open>writing w h\<close>: the part \<open>h\<close> is the open last part and holds no error.
  \<open>built w ps\<close>: moreover the buffer holds exactly the parts \<open>ps\<close>, the last one still open.
\<close>

definition writing :: "Writer \<Rightarrow> nat \<Rightarrow> bool" where
  "writing w h \<longleftrightarrow> lastpart w = Some \<lparr>part_id = h, closed = False, we = None\<rparr>"

definition built :: "Writer \<Rightarrow> mpart list \<Rightarrow> bool" where
  "built w ps \<longleftrightarrow>
     (\<exists>h. writing w h) \<and> ps \<noteq> [] \<and> requestBody w = render_parts (boundary w) True ps"

text \<open>\<open>reports r\<close>: a step that leaves with an error has printed that error.\<close>

definition reports :: "step \<Rightarrow> bool" where
  "reports r \<longleftrightarrow> (case r of (EncErr err, w, evs) \<Rightarrow> err \<in> set (printed evs) | _ \<Rightarrow> True)"

section \<open>Properties\<close>

subsection \<open>The multipart writer\<close>

lemma render_parts_append:
  "render_parts b first (ps @ qs) = render_parts b first ps @ render_parts b (first \<and> ps = []) qs"
  by (induction ps arbitrary: first) auto

lemma body_Write_ok:
  "body_Write d w = (None, w\<lparr>requestBody := requestBody w @ d\<rparr>)"
  by (simp add: body_Write_def)

lemma part_Write_ok:
  assumes "writing w h"
  shows "part_Write h d w = (None, w\<lparr>requestBody := requestBody w @ d\<rparr>)"
  using assms by (simp add: part_Write_def writing_def body_Write_ok)

lemma writing_after_Write:
  "writing w h \<Longrightarrow> writing (w\<lparr>requestBody := bs\<rparr>) h"
  by (simp add: writing_def)

lemma copy_chunks_ok:
  "writing w h \<Longrightarrow>
   \<exists>w'. copy_chunks h cs rerr w = (rerr, w') \<and> writing w' h \<and>
        requestBody w' = requestBody w @ concat cs \<and> boundary w' = boundary w"
proof (induction cs arbitrary: w)
  case Nil
  then show ?case by simp
next
  case (Cons ch rest)
  show ?case
  proof (cases "ch = []")
    case True
    with Cons show ?thesis by simp
  next
    case False
    let ?w1 = "w\<lparr>requestBody := requestBody w @ ch\<rparr>"
    have w1: "writing ?w1 h" using Cons.prems by (rule writing_after_Write)
    from Cons.IH [OF w1] obtain w' where
      "copy_chunks h rest rerr ?w1 = (rerr, w')" "writing w' h"
      "requestBody w' = requestBody ?w1 @ concat rest" "boundary w' = boundary ?w1"
      by blast
    with False part_Write_ok [OF Cons.prems] show ?thesis by simp
  qed
qed

lemma CreatePart_first:
  assumes "lastpart w = None"
  shows "\<exists>w'. CreatePart hdr w = (Inr (nparts w), w') \<and> writing w' (nparts w) \<and>
           requestBody w' = requestBody w @ ''--'' @ boundary w @ CRLF @
             concat (map (\<lambda>(k, v). k @ '': '' @ v @ CRLF) hdr) @ CRLF \<and>
           boundary w' = boundary w"
  using assms by (simp add: CreatePart_def part_close_def body_Write_def writing_def)

lemma CreatePart_next:
  assumes "writing w h"
  shows "\<exists>w'. CreatePart hdr w = (Inr (nparts w), w') \<and> writing w' (nparts w) \<and>
           requestBody w' = requestBody w @ CRLF @ ''--'' @ boundary w @ CRLF @
             concat (map (\<lambda>(k, v). k @ '': '' @ v @ CRLF) hdr) @ CRLF \<and>
           boundary w' = boundary w"
  using assms by (simp add: CreatePart_def part_close_def body_Write_def writing_def)

lemma file_part_ok:
  assumes "read_error f = None"
  shows "\<exists>w. file_part env (Some f) = (EncDone, w, []) \<and>
           built w [FilePart ''file'' ''group.*.tar.gz'' (concat (chunks f))] \<and>
           boundary w = randomBoundary env"
proof -
  let ?w0 = "NewWriter env"
  have f0: "lastpart ?w0 = None" "requestBody ?w0 = []"
    "boundary ?w0 = randomBoundary env" "nparts ?w0 = 0"
    by (simp_all add: NewWriter_def)
  from CreatePart_first [OF f0(1)] obtain w1 where
    w1: "CreateFormFile ''file'' ''group.*.tar.gz'' ?w0 = (Inr 0, w1)" "writing w1 0"
      "requestBody w1 = ''--'' @ randomBoundary env @ CRLF @
         part_header (FilePart ''file'' ''group.*.tar.gz'' []) @ CRLF"
      "boundary w1 = randomBoundary env"
    unfolding CreateFormFile_def using f0 by fastforce
  from copy_chunks_ok [OF w1(2)] obtain w2 where
    w2: "copy_chunks 0 (chunks f) None w1 = (None, w2)" "writing w2 0"
      "requestBody w2 = requestBody w1 @ concat (chunks f)" "boundary w2 = boundary w1"
    by blast
  have "file_part env (Some f) = (EncDone, w2, [])"
    using w1(1) w2(1) assms by (simp add: file_part_def io_Copy_def)
  moreover have "built w2 [FilePart ''file'' ''group.*.tar.gz'' (concat (chunks f))]"
    using w2 w1 by (auto simp add: built_def)
  ultimately show ?thesis using w2(4) w1(4) by simp
qed

lemma required_field_ok:
  assumes "built w ps"
  shows "\<exists>w'. required_field n (Some v) w = (EncDone, w', []) \<and>
           built w' (ps @ [FieldPart n v]) \<and> boundary w' = boundary w"
proof -
  from assms obtain h where h: "writing w h" and ps: "ps \<noteq> []"
    and body: "requestBody w = render_parts (boundary w) True ps"
    by (auto simp add: built_def)
  from CreatePart_next [OF h] obtain w1 where
    w1: "CreateFormField n w = (Inr (nparts w), w1)" "writing w1 (nparts w)"
      "requestBody w1 = requestBody w @ CRLF @ ''--'' @ boundary w @ CRLF @
         part_header (FieldPart n v) @ CRLF"
      "boundary w1 = boundary w"
    unfolding CreateFormField_def by fastforce
  let ?w2 = "w1\<lparr>requestBody := requestBody w1 @ v\<rparr>"
  have "required_field n (Some v) w = (EncDone, ?w2, [])"
    using w1(1) part_Write_ok [OF w1(2)] by (simp add: required_field_def)
  moreover have "built ?w2 (ps @ [FieldPart n v])"
    using writing_after_Write [OF w1(2)] w1(3,4) body ps
    by (auto simp add: built_def render_parts_append)
  ultimately show ?thesis using w1(4) by simp
qed

lemma optional_field_ok:
  assumes "built w ps"
  shows "\<exists>w'. optional_field n val w = (EncDone, w', []) \<and>
           built w' (ps @ optional_part n val) \<and> boundary w' = boundary w"
proof (cases val)
  case None
  with assms show ?thesis by (simp add: optional_field_def optional_part_def)
next
  case (Some v)
  from required_field_ok [OF assms, of n v] obtain w' where
    "required_field n (Some v) w = (EncDone, w', [])" "built w' (ps @ [FieldPart n v])"
    "boundary w' = boundary w" by blast
  then show ?thesis using Some
    by (auto simp add: optional_field_def required_field_def optional_part_def
        split: prod.splits sum.splits option.splits)
qed

lemma Writer_Close_ok:
  assumes "built w ps"
  shows "requestBody (snd (Writer_Close w)) = multipart_body (boundary w) ps \<and>
         boundary (snd (Writer_Close w)) = boundary w"
  using assms
  by (auto simp add: built_def writing_def Writer_Close_def part_close_def body_Write_def
      multipart_body_def)

lemma and_then_Done:
  "r = (EncDone, w, evs) \<Longrightarrow> f w = (r', w', evs') \<Longrightarrow> and_then r f = (r', w', evs @ evs')"
  by (simp add: and_then_def)

lemma encode_ok:
  assumes "read_error f = None"
    "Namespace opt = Some ns" "Path opt = Some pa"
  shows "\<exists>w. encode env (Some f) opt = (EncDone, w, []) \<and>
           requestBody w = multipart_body (randomBoundary env)
             (submission_parts (Stringify env) opt (concat (chunks f)) ns pa) \<and>
           boundary w = randomBoundary env"
proof -
  let ?p0 = "[FilePart ''file'' ''group.*.tar.gz'' (concat (chunks f))]"
  let ?ow = "map_option FormatBool (Overwrite opt)"
  let ?ov = "map_option (Stringify env) (OverrideParams opt)"
  from file_part_ok [OF assms(1)] obtain w0 where
    s0: "file_part env (Some f) = (EncDone, w0, [])" "built w0 ?p0"
      "boundary w0 = randomBoundary env" by blast
  from required_field_ok [OF s0(2), of "''namespace''" ns] obtain w1 where
    s1: "required_field ''namespace'' (Some ns) w0 = (EncDone, w1, [])"
      "built w1 (?p0 @ [FieldPart ''namespace'' ns])" "boundary w1 = boundary w0" by blast
  from required_field_ok [OF s1(2), of "''path''" pa] obtain w2 where
    s2: "required_field ''path'' (Some pa) w1 = (EncDone, w2, [])"
      "built w2 ((?p0 @ [FieldPart ''namespace'' ns]) @ [FieldPart ''path'' pa])"
      "boundary w2 = boundary w1" by blast
  from optional_field_ok [OF s2(2), of "''name''" "Name opt"] obtain w3 where
    s3: "optional_field ''name'' (Name opt) w2 = (EncDone, w3, [])"
      "built w3 (((?p0 @ [FieldPart ''namespace'' ns]) @ [FieldPart ''path'' pa])
         @ optional_part ''name'' (Name opt))"
      "boundary w3 = boundary w2" by blast
  from optional_field_ok [OF s3(2), of "''overwrite''" ?ow] obtain w4 where
    s4: "optional_field ''overwrite'' ?ow w3 = (EncDone, w4, [])"
      "built w4 ((((?p0 @ [FieldPart ''namespace'' ns]) @ [FieldPart ''path'' pa])
         @ optional_part ''name'' (Name opt)) @ optional_part ''overwrite'' ?ow)"
      "boundary w4 = boundary w3" by blast
  from optional_field_ok [OF s4(2), of "''override_params''" ?ov] obtain w5 where
    s5: "optional_field ''override_params'' ?ov w4 = (EncDone, w5, [])"
      "built w5 (((((?p0 @ [FieldPart ''namespace'' ns]) @ [FieldPart ''path'' pa])
         @ optional_part ''name'' (Name opt)) @ optional_part ''overwrite'' ?ow)
         @ optional_part ''override_params'' ?ov)"
      "boundary w5 = boundary w4" by blast
  have ow: "?ow = (case Overwrite opt of None \<Rightarrow> None | Some True \<Rightarrow> Some ''true''
                   | Some False \<Rightarrow> Some ''false'')"
    by (simp add: FormatBool_def split: option.splits bool.splits)
  have parts: "((((?p0 @ [FieldPart ''namespace'' ns]) @ [FieldPart ''path'' pa])
         @ optional_part ''name'' (Name opt)) @ optional_part ''overwrite'' ?ow)
         @ optional_part ''override_params'' ?ov
       = submission_parts (Stringify env) opt (concat (chunks f)) ns pa"
    unfolding ow by (simp add: submission_parts_def)
  have bnd: "boundary w5 = randomBoundary env"
    using s0(3) s1(3) s2(3) s3(3) s4(3) s5(3) by simp
  have "encode env (Some f) opt = (EncDone, snd (Writer_Close w5), [])"
    unfolding encode_def using s0(1) s1(1) s2(1) s3(1) s4(1) s5(1) assms(2,3)
    by (simp add: and_then_def)
  moreover from Writer_Close_ok [OF s5(2)] have
    "requestBody (snd (Writer_Close w5)) = multipart_body (randomBoundary env)
       (submission_parts (Stringify env) opt (concat (chunks f)) ns pa)"
    "boundary (snd (Writer_Close w5)) = randomBoundary env"
    unfolding parts bnd by simp_all
  ultimately show ?thesis by simp
qed

lemma and_then_fst_Done:
  "fst (and_then r f) = EncDone \<Longrightarrow> fst r = EncDone \<and> fst (f (fst (snd r))) = EncDone"
  by (cases r) (auto simp add: and_then_def split: enc.splits prod.splits)

lemma required_field_nil_not_Done: "fst (required_field n None w) \<noteq> EncDone"
  by (simp add: required_field_def split: prod.splits sum.splits)

lemma encode_nil_not_Done:
  assumes "Namespace opt = None \<or> Path opt = None"
  shows "fst (encode env file opt) \<noteq> EncDone"
proof
  assume d: "fst (encode env file opt) = EncDone"
  from and_then_fst_Done [OF d [unfolded encode_def]]
  have a: "fst (and_then (required_field ''namespace'' (Namespace opt) (fst (snd (file_part env file))))
            (\<lambda>w. and_then (required_field ''path'' (Path opt) w) (\<lambda>w.
              and_then (optional_field ''name'' (Name opt) w) (\<lambda>w.
              and_then (optional_field ''overwrite'' (map_option FormatBool (Overwrite opt)) w) (\<lambda>w.
              and_then (optional_field ''override_params''
                 (map_option (Stringify env) (OverrideParams opt)) w) (\<lambda>w.
              (EncDone, snd (Writer_Close w), []))))))) = EncDone"
    by simp
  from and_then_fst_Done [OF a]
  have n: "fst (required_field ''namespace'' (Namespace opt) (fst (snd (file_part env file)))) = EncDone"
    and b: "fst (and_then (required_field ''path'' (Path opt)
              (fst (snd (required_field ''namespace'' (Namespace opt) (fst (snd (file_part env file)))))))
            (\<lambda>w. and_then (optional_field ''name'' (Name opt) w) (\<lambda>w.
              and_then (optional_field ''overwrite'' (map_option FormatBool (Overwrite opt)) w) (\<lambda>w.
              and_then (optional_field ''override_params''
                 (map_option (Stringify env) (OverrideParams opt)) w) (\<lambda>w.
              (EncDone, snd (Writer_Close w), [])))))) = EncDone"
    by simp_all
  from and_then_fst_Done [OF b]
  have p: "fst (required_field ''path'' (Path opt)
              (fst (snd (required_field ''namespace'' (Namespace opt) (fst (snd (file_part env file))))))) = EncDone"
    by simp
  from assms n p required_field_nil_not_Done show False by metis
qed

lemma and_then_quiet:
  assumes "filter is_request_call (snd (snd r)) = []"
    and "\<And>w. filter is_request_call (snd (snd (f w))) = []"
  shows "filter is_request_call (snd (snd (and_then r f))) = []"
proof (cases r)
  case (fields e w evs)
  show ?thesis
  proof (cases e)
    case EncDone
    obtain r' w' evs' where fw: "f w = (r', w', evs')" by (cases "f w") auto
    from assms(2) [of w] fw have "filter is_request_call evs' = []" by simp
    with assms(1) fields EncDone fw show ?thesis by (simp add: and_then_def)
  next
    case (EncErr err)
    with assms(1) fields show ?thesis by (simp add: and_then_def)
  next
    case EncPanic
    with assms(1) fields show ?thesis by (simp add: and_then_def)
  qed
qed

lemma file_part_quiet: "filter is_request_call (snd (snd (file_part env file))) = []"
  by (simp add: file_part_def split: prod.splits sum.splits option.splits)

lemma required_field_quiet: "filter is_request_call (snd (snd (required_field n val w))) = []"
  by (simp add: required_field_def split: prod.splits sum.splits option.splits)

lemma optional_field_quiet: "filter is_request_call (snd (snd (optional_field n val w))) = []"
  by (simp add: optional_field_def split: prod.splits sum.splits option.splits)

lemma encode_quiet: "filter is_request_call (snd (snd (encode env file opt))) = []"
  unfolding encode_def
  by (intro and_then_quiet file_part_quiet required_field_quiet optional_field_quiet) simp

lemma quiet_new_requests: "filter is_request_call evs = [] \<Longrightarrow> new_requests evs = []"
  by (induction evs rule: new_requests.induct) (auto split: if_splits)

lemma new_requests_append: "new_requests (xs @ ys) = new_requests xs @ new_requests ys"
  by (induction xs rule: new_requests.induct) auto

lemma bodies_set_append: "bodies_set (xs @ ys) = bodies_set xs @ bodies_set ys"
  by (induction xs rule: bodies_set.induct) auto

lemma headers_set_append: "headers_set (xs @ ys) = headers_set xs @ headers_set ys"
  by (induction xs rule: headers_set.induct) auto

lemma requests_done_append: "requests_done (xs @ ys) = requests_done xs @ requests_done ys"
  by (induction xs rule: requests_done.induct) auto

lemma printed_append: "printed (xs @ ys) = printed xs @ printed ys"
  by (induction xs rule: printed.induct) auto

lemma and_then_reports:
  assumes "reports r" and "\<And>w. reports (f w)"
  shows "reports (and_then r f)"
proof (cases r)
  case (fields e w evs)
  show ?thesis
  proof (cases e)
    case EncDone
    obtain r' w' evs' where fw: "f w = (r', w', evs')" by (cases "f w") auto
    with assms(2) [of w] fields EncDone show ?thesis
      by (cases r') (simp_all add: and_then_def reports_def printed_append)
  next
    case (EncErr err)
    with fields assms(1) show ?thesis by (simp add: and_then_def)
  next
    case EncPanic
    with fields show ?thesis by (simp add: and_then_def reports_def)
  qed
qed

lemma file_part_reports: "reports (file_part env file)"
  by (simp add: file_part_def reports_def split: prod.splits sum.splits option.splits)

lemma required_field_reports: "reports (required_field n val w)"
  by (simp add: required_field_def reports_def split: prod.splits sum.splits option.splits)

lemma optional_field_reports: "reports (optional_field n val w)"
  by (simp add: optional_field_def reports_def split: prod.splits sum.splits option.splits)

lemma encode_reports: "reports (encode env file opt)"
  unfolding encode_def
  by (intro and_then_reports file_part_reports required_field_reports optional_field_reports)
     (simp add: reports_def)

lemma required_field_nil_panics:
  assumes "built w ps"
  shows "\<exists>w'. required_field n None w = (EncPanic, w', [])"
proof -
  from assms obtain h where h: "writing w h" by (auto simp add: built_def)
  from CreatePart_next [OF h] obtain w1 where
    "CreateFormField n w = (Inr (nparts w), w1)"
    unfolding CreateFormField_def by blast
  then show ?thesis by (simp add: required_field_def)
qed

lemma encode_nil_panics:
  assumes "read_error f = None"
    "Namespace opt = None \<or> Path opt = None"
  shows "\<exists>w. encode env (Some f) opt = (EncPanic, w, [])"
proof -
  from file_part_ok [OF assms(1)] obtain w0 where
    s0: "file_part env (Some f) = (EncDone, w0, [])"
      "built w0 [FilePart ''file'' ''group.*.tar.gz'' (concat (chunks f))]" by blast
  show ?thesis
  proof (cases "Namespace opt")
    case None
    from required_field_nil_panics [OF s0(2), of "''namespace''"] obtain w1 where
      "required_field ''namespace'' None w0 = (EncPanic, w1, [])" by blast
    with s0(1) None show ?thesis by (simp add: encode_def and_then_def)
  next
    case (Some ns)
    with assms(2) have pa: "Path opt = None" by simp
    from required_field_ok [OF s0(2), of "''namespace''" ns] obtain w1 where
      s1: "required_field ''namespace'' (Some ns) w0 = (EncDone, w1, [])"
        "built w1 ([FilePart ''file'' ''group.*.tar.gz'' (concat (chunks f))]
           @ [FieldPart ''namespace'' ns])" by blast
    from required_field_nil_panics [OF s1(2), of "''path''"] obtain w2 where
      "required_field ''path'' None w1 = (EncPanic, w2, [])" by blast
    with s0(1) s1(1) Some pa show ?thesis by (simp add: encode_def and_then_def)
  qed
qed







lemma ImportFile_after_encode:
  assumes "File opt = Some path" "os_Open env path = Inr f"
    "encode env (Some f) opt = (EncDone, w, [])"
  shows "ImportFile c env (Some opt) options =
           (fst (submit c w options),
            [EvOpen path] @ snd (submit c w options) @ [EvClose (Some path)])"
  using assms by (simp add: ImportFile_def split: prod.splits)

subsection \<open>Reading requests off the effects\<close>

lemma submit_new_requests:
  "new_requests (snd (submit c w options)) = [(''POST'', ''groups/import'')]"
  by (simp add: submit_def MethodPost_def Let_def split: sum.splits option.splits prod.splits)

lemma ImportFile_new_requests:
  "new_requests (snd (ImportFile c env iopt options)) =
     (case iopt of None \<Rightarrow> []
      | Some opts \<Rightarrow> (case File opts of None \<Rightarrow> []
          | Some path \<Rightarrow>
              if fst (encode env (case os_Open env path of Inl err \<Rightarrow> None | Inr f \<Rightarrow> Some f) opts)
                   = EncDone
              then [(''POST'', ''groups/import'')] else []))"
proof (cases iopt)
  case None
  then show ?thesis by (simp add: ImportFile_def)
next
  case (Some opts)
  show ?thesis
  proof (cases "File opts")
    case None
    with Some show ?thesis by (simp add: ImportFile_def)
  next
    case (Some path)
    let ?file = "case os_Open env path of Inl err \<Rightarrow> None | Inr f \<Rightarrow> Some f"
    obtain e w evs where enc: "encode env ?file opts = (e, w, evs)"
      by (cases "encode env ?file opts") auto
    from encode_quiet [of env ?file opts] enc have "new_requests evs = []"
      by (simp add: quiet_new_requests)
    with enc Some \<open>iopt = Some opts\<close> submit_new_requests [of c w options]
    show ?thesis
      by (cases e; cases "os_Open env path")
         (auto simp add: ImportFile_def new_requests_append split: prod.splits)
  qed
qed

subsection \<open>ImportFile when the file is read whole, and on a nil field\<close>

lemma ImportFile_ok:
  assumes "File opt = Some path" "os_Open env path = Inr f"
    "read_error f = None" "Namespace opt = Some ns" "Path opt = Some pa"
  shows "\<exists>w. encode env (Some f) opt = (EncDone, w, []) \<and>
           requestBody w = multipart_body (randomBoundary env)
             (submission_parts (Stringify env) opt (concat (chunks f)) ns pa) \<and>
           boundary w = randomBoundary env \<and>
           ImportFile c env (Some opt) options =
             (fst (submit c w options),
              [EvOpen path] @ snd (submit c w options) @ [EvClose (Some path)])"
proof -
  from encode_ok [OF assms(3,4,5)] obtain w where
    w: "encode env (Some f) opt = (EncDone, w, [])"
      "requestBody w = multipart_body (randomBoundary env)
         (submission_parts (Stringify env) opt (concat (chunks f)) ns pa)"
      "boundary w = randomBoundary env" by blast
  from ImportFile_after_encode [OF assms(1,2) w(1)] w show ?thesis by blast
qed


lemma ImportFile_nil_panics:
  assumes "File opt = Some path" "os_Open env path = Inr f"
    "read_error f = None" "Namespace opt = None \<or> Path opt = None"
  shows "ImportFile c env (Some opt) options = (Panicked, [EvOpen path, EvClose (Some path)])"
proof -
  from encode_nil_panics [OF assms(3,4)] obtain w where
    "encode env (Some f) opt = (EncPanic, w, [])" by blast
  with assms(1,2) show ?thesis by (simp add: ImportFile_def)
qed

lemma ImportFile_nil_quiet:
  assumes "Namespace opt = None \<or> Path opt = None"
  shows "filter is_request_call (snd (ImportFile c env (Some opt) options)) = [] \<and>
         (fst (ImportFile c env (Some opt) options) = Panicked \<or>
          (\<exists>err. fst (ImportFile c env (Some opt) options) = Returned (None, None, Some err) \<and>
                 err \<in> set (printed (snd (ImportFile c env (Some opt) options)))))"
proof (cases "File opt")
  case None
  then show ?thesis by (simp add: ImportFile_def)
next
  case (Some path)
  let ?file = "case os_Open env path of Inl err \<Rightarrow> None | Inr f \<Rightarrow> Some f"
  obtain e w evs where enc: "encode env ?file opt = (e, w, evs)"
    by (cases "encode env ?file opt") auto
  from encode_nil_not_Done [OF assms, of env ?file] enc have ne: "e \<noteq> EncDone" by simp
  from encode_quiet [of env ?file opt] enc have q: "filter is_request_call evs = []" by simp
  from encode_reports [of env ?file opt] enc
  have r: "\<And>err. e = EncErr err \<Longrightarrow> err \<in> set (printed evs)" by (simp add: reports_def)
  from ne q r enc Some show ?thesis
    by (cases e; cases "os_Open env path") (auto simp add: ImportFile_def printed_append)
qed

subsection \<open>Facts about the doubles\<close>

lemma double_facts:
  "os_Open double_env ''export.tar.gz'' = Inr \<lparr>chunks = [''ARCHIVE''], read_error = None\<rparr>"
  "randomBoundary double_env = ''B''"
  "File submission = Some ''export.tar.gz''"
  "Namespace submission = Some ''ns''"
  "Path submission = Some ''proj''"
  "Name submission = None" "Overwrite submission = None" "OverrideParams submission = None"
  "parseID (double_client r) (StringID s) = Inr s"
  "pathEscape (double_client r) s = s"
  "NewRequest (double_client r) m u ro options = Inr \<lparr>Method = m, URL = u, Body = None, Header = Map.empty\<rparr>"
  "SetBody_error (double_client r) req b = None"
  by (simp_all add: double_env_def double_fs_def submission_def double_client_def)

lemmas writer_defs =
  NewWriter_def body_Write_def part_close_def CreatePart_def CreateFormFile_def
  CreateFormField_def part_Write_def Writer_Close_def io_Copy_def

lemmas step_defs =
  and_then_def file_part_def required_field_def optional_field_def encode_def

lemmas double_defs =
  double_client_def double_env_def double_fs_def submission_def ok_reply_def

section \<open>The claims\<close>

subsection \<open>C1: no validation of namespace and path\<close>

text \<open>
  C1 says that an import submission whose namespace or path is missing or empty gets a
  validation error before any transport call. The source has no validation. With an empty
  namespace the double below submits the request: \<^verbatim>\<open>NewRequest\<close> and \<^verbatim>\<open>Do\<close> are called,
  the body holds a namespace part with no content, and the call returns the status and a
  nil error.
\<close>

theorem empty_namespace_is_submitted:
  "fst (ImportFile (double_client ok_reply) double_env
          (Some (submission\<lparr>Namespace := Some []\<rparr>)) []) =
     Returned (Some new_ImportStatus, Some \<lparr>StatusCode = 200\<rparr>, None) \<and>
   new_requests (snd (ImportFile (double_client ok_reply) double_env
          (Some (submission\<lparr>Namespace := Some []\<rparr>)) [])) = [(''POST'', ''groups/import'')] \<and>
   length (requests_done (snd (ImportFile (double_client ok_reply) double_env
          (Some (submission\<lparr>Namespace := Some []\<rparr>)) []))) = 1 \<and>
   bodies_set (snd (ImportFile (double_client ok_reply) double_env
          (Some (submission\<lparr>Namespace := Some []\<rparr>)) [])) =
     [multipart_body ''B''
        [FilePart ''file'' ''group.*.tar.gz'' ''ARCHIVE'',
         FieldPart ''namespace'' [], FieldPart ''path'' ''proj'']]"
  by (simp add: ImportFile_def submit_def Do_ImportStatus_def step_defs writer_defs double_defs
      FormatBool_def MethodPost_def Let_def multipart_body_def)

text \<open>
  C1, as the source has it. When the namespace or the path is missing (a nil pointer),
  \<^verbatim>\<open>ImportFile\<close> makes no call to \<^verbatim>\<open>NewRequest\<close>, \<^verbatim>\<open>SetBody\<close>, \<^verbatim>\<open>Header.Set\<close> or \<^verbatim>\<open>Do\<close>: it
  panics, or it returns an error that it met before the dereference and printed. When both
  are present, empty or not, and the file is read to its end, they are written as field
  parts as they are and the request is built with \<^verbatim>\<open>POST groups/import\<close> and given
  the body.
\<close>

theorem namespace_and_path_are_not_validated:
  "(Namespace opt = None \<or> Path opt = None \<longrightarrow>
      filter is_request_call (snd (ImportFile c env (Some opt) options)) = [] \<and>
      (fst (ImportFile c env (Some opt) options) = Panicked \<or>
       (\<exists>err. fst (ImportFile c env (Some opt) options) = Returned (None, None, Some err) \<and>
              err \<in> set (printed (snd (ImportFile c env (Some opt) options)))))) \<and>
   (File opt = Some path \<and> os_Open env path = Inr f \<and>
    read_error f = None \<and> Namespace opt = Some ns \<and> Path opt = Some pa \<and>
    NewRequest c ''POST'' ''groups/import'' NoOpt options = Inr req \<longrightarrow>
      new_requests (snd (ImportFile c env (Some opt) options)) = [(''POST'', ''groups/import'')] \<and>
      bodies_set (snd (ImportFile c env (Some opt) options)) =
        [multipart_body (randomBoundary env)
           (submission_parts (Stringify env) opt (concat (chunks f)) ns pa)])"
proof (intro conjI impI)
  assume "Namespace opt = None \<or> Path opt = None"
  from ImportFile_nil_quiet [OF this, of c env options]
  show "filter is_request_call (snd (ImportFile c env (Some opt) options)) = []"
    and "fst (ImportFile c env (Some opt) options) = Panicked \<or>
       (\<exists>err. fst (ImportFile c env (Some opt) options) = Returned (None, None, Some err) \<and>
              err \<in> set (printed (snd (ImportFile c env (Some opt) options))))"
    by simp_all
next
  assume a: "File opt = Some path \<and> os_Open env path = Inr f \<and>
    read_error f = None \<and> Namespace opt = Some ns \<and> Path opt = Some pa \<and>
    NewRequest c ''POST'' ''groups/import'' NoOpt options = Inr req"
  then obtain w where
    w: "requestBody w = multipart_body (randomBoundary env)
          (submission_parts (Stringify env) opt (concat (chunks f)) ns pa)"
      "ImportFile c env (Some opt) options =
         (fst (submit c w options),
          [EvOpen path] @ snd (submit c w options) @ [EvClose (Some path)])"
    using ImportFile_ok [of opt path env f ns pa c options] by blast
  show "new_requests (snd (ImportFile c env (Some opt) options)) = [(''POST'', ''groups/import'')]"
    unfolding w(2) by (simp add: new_requests_append submit_new_requests)
  have "bodies_set (snd (submit c w options)) = [requestBody w]"
    using a by (simp add: submit_def MethodPost_def Let_def split: option.splits prod.splits)
  then show "bodies_set (snd (ImportFile c env (Some opt) options)) =
        [multipart_body (randomBoundary env)
           (submission_parts (Stringify env) opt (concat (chunks f)) ns pa)]"
    unfolding w(2) by (simp add: bodies_set_append w(1))
qed

theorem namespace_and_path_are_not_validated_witness:
  "(Namespace (submission\<lparr>Namespace := None\<rparr>) = None \<or>
    Path (submission\<lparr>Namespace := None\<rparr>) = None) \<and>
   filter is_request_call (snd (ImportFile (double_client ok_reply) double_env
     (Some (submission\<lparr>Namespace := None\<rparr>)) [])) = [] \<and>
   fst (ImportFile (double_client ok_reply) double_env
     (Some (submission\<lparr>Namespace := None\<rparr>)) []) = Panicked \<and>
   File (submission\<lparr>Path := Some []\<rparr>) = Some ''export.tar.gz'' \<and>
   os_Open double_env ''export.tar.gz'' =
     Inr \<lparr>chunks = [''ARCHIVE''], read_error = None\<rparr> \<and>
   read_error \<lparr>chunks = [''ARCHIVE''], read_error = None\<rparr> = None \<and>
   Namespace (submission\<lparr>Path := Some []\<rparr>) = Some ''ns'' \<and>
   Path (submission\<lparr>Path := Some []\<rparr>) = Some [] \<and>
   NewRequest (double_client ok_reply) ''POST'' ''groups/import'' NoOpt [] =
     Inr \<lparr>Method = ''POST'', URL = ''groups/import'', Body = None, Header = Map.empty\<rparr> \<and>
   new_requests (snd (ImportFile (double_client ok_reply) double_env
     (Some (submission\<lparr>Path := Some []\<rparr>)) [])) = [(''POST'', ''groups/import'')] \<and>
   bodies_set (snd (ImportFile (double_client ok_reply) double_env
     (Some (submission\<lparr>Path := Some []\<rparr>)) [])) =
     [multipart_body ''B''
        [FilePart ''file'' ''group.*.tar.gz'' ''ARCHIVE'',
         FieldPart ''namespace'' ''ns'', FieldPart ''path'' []]]"
proof -
  let ?c = "double_client ok_reply" and ?env = "double_env"
  let ?f = "\<lparr>chunks = [''ARCHIVE''], read_error = None\<rparr>"
  have p: "fst (ImportFile ?c ?env (Some (submission\<lparr>Namespace := None\<rparr>)) []) = Panicked"
    using ImportFile_nil_panics [of "submission\<lparr>Namespace := None\<rparr>" "''export.tar.gz''"
        ?env ?f ?c "[]"]
    by (simp add: double_facts)
  from namespace_and_path_are_not_validated [of "submission\<lparr>Namespace := None\<rparr>" ?c ?env "[]"]
    namespace_and_path_are_not_validated [of "submission\<lparr>Path := Some []\<rparr>" ?c ?env "[]"
      "''export.tar.gz''" ?f "''ns''" "[]"
      "\<lparr>Method = ''POST'', URL = ''groups/import'', Body = None, Header = Map.empty\<rparr>"]
    p
  show ?thesis
    by (simp add: double_facts submission_parts_def optional_part_def)
qed

subsection \<open>C2: errors while the parts are written\<close>



subsection \<open>C3: an archive that cannot be opened\<close>

text \<open>
  C3 says that when the archive cannot be opened \<^verbatim>\<open>ImportFile\<close> returns the error of the
  open at once, without building the body and without a transport call. The source prints
  the error of \<^verbatim>\<open>os.Open\<close> and goes on with a nil file: it creates the writer and writes
  the header of the file part into the body; then \<^verbatim>\<open>io.Copy\<close> fails on the nil file and
  that error, \<^verbatim>\<open>os.ErrInvalid\<close>, is the one returned. No transport call is made.
\<close>

theorem open_error_is_printed_and_encoding_goes_on:
  "ImportFile (double_client ok_reply) double_env
     (Some (submission\<lparr>File := Some ''missing.tar.gz''\<rparr>)) [] =
   (Returned (None, None, Some ErrInvalid),
    [EvOpen ''missing.tar.gz'', EvPrintln (Err ''no such file''), EvPrintln ErrInvalid,
     EvClose None]) \<and>
   requestBody (fst (snd (encode double_env None
     (submission\<lparr>File := Some ''missing.tar.gz''\<rparr>)))) =
   render_parts ''B'' True [FilePart ''file'' ''group.*.tar.gz'' []]"
  by (simp add: ImportFile_def step_defs writer_defs double_defs)

subsection \<open>C4: the order of the parts\<close>

text \<open>
  C4. For every import submission whose file opens and is read to its end, the body given to the
  request is the multipart body of these parts in this order: the file part (field name
  \<^verbatim>\<open>file\<close>, file name \<^verbatim>\<open>group.*.tar.gz\<close>) with the bytes of the archive, the namespace, the
  path, then the name, the overwrite flag and the override parameters, each of the three
  only when it is set. With none of the three set, the body holds exactly the file part
  and the two field parts namespace and path.
\<close>

theorem parts_in_fixed_order:
  assumes "File opt = Some path"
    and "os_Open env path = Inr f" and "read_error f = None"
    and "Namespace opt = Some ns" and "Path opt = Some pa"
    and "NewRequest c ''POST'' ''groups/import'' NoOpt options = Inr req"
  shows "bodies_set (snd (ImportFile c env (Some opt) options)) =
           [multipart_body (randomBoundary env)
              (submission_parts (Stringify env) opt (concat (chunks f)) ns pa)] \<and>
         (Name opt = None \<and> Overwrite opt = None \<and> OverrideParams opt = None \<longrightarrow>
            bodies_set (snd (ImportFile c env (Some opt) options)) =
              [multipart_body (randomBoundary env)
                 [FilePart ''file'' ''group.*.tar.gz'' (concat (chunks f)),
                  FieldPart ''namespace'' ns, FieldPart ''path'' pa]])"
proof -
  from ImportFile_ok [OF assms(1-5), of c options] obtain w where
    w: "requestBody w = multipart_body (randomBoundary env)
          (submission_parts (Stringify env) opt (concat (chunks f)) ns pa)"
      "ImportFile c env (Some opt) options =
         (fst (submit c w options),
          [EvOpen path] @ snd (submit c w options) @ [EvClose (Some path)])" by blast
  have "bodies_set (snd (submit c w options)) = [requestBody w]"
    using assms(6)
    by (simp add: submit_def MethodPost_def Let_def split: option.splits prod.splits)
  then have b: "bodies_set (snd (ImportFile c env (Some opt) options)) = [requestBody w]"
    unfolding w(2) by (simp add: bodies_set_append)
  show ?thesis unfolding b w(1)
    by (simp add: submission_parts_def optional_part_def)
qed

theorem parts_in_fixed_order_witness:
  "File submission = Some ''export.tar.gz'' \<and>
   os_Open double_env ''export.tar.gz'' =
     Inr \<lparr>chunks = [''ARCHIVE''], read_error = None\<rparr> \<and>
   read_error \<lparr>chunks = [''ARCHIVE''], read_error = None\<rparr> = None \<and>
   Namespace submission = Some ''ns'' \<and> Path submission = Some ''proj'' \<and>
   NewRequest (double_client ok_reply) ''POST'' ''groups/import'' NoOpt [] =
     Inr \<lparr>Method = ''POST'', URL = ''groups/import'', Body = None, Header = Map.empty\<rparr> \<and>
   Name submission = None \<and> Overwrite submission = None \<and> OverrideParams submission = None \<and>
   bodies_set (snd (ImportFile (double_client ok_reply) double_env
     (Some submission) [])) =
     [multipart_body ''B''
        [FilePart ''file'' ''group.*.tar.gz'' ''ARCHIVE'',
         FieldPart ''namespace'' ''ns'', FieldPart ''path'' ''proj'']]"
  using parts_in_fixed_order [of submission "''export.tar.gz''" double_env
      "\<lparr>chunks = [''ARCHIVE''], read_error = None\<rparr>" "''ns''" "''proj''"
      "double_client ok_reply" "[]"
      "\<lparr>Method = ''POST'', URL = ''groups/import'', Body = None, Header = Map.empty\<rparr>"]
  by (simp add: double_facts submission_parts_def optional_part_def)

subsection \<open>C5: the boundary of the header and of the body\<close>

text \<open>
  C5. For every import submission whose file opens and is read to its end and whose request is
  built, the \<^verbatim>\<open>Content-Type\<close> set on the request is the value \<^verbatim>\<open>FormDataContentType\<close> of
  the multipart writer gives, unchanged: \<^verbatim>\<open>multipart/form-data; boundary=\<close> followed by the
  boundary of the writer (in quotes when it holds a special character), and the body given
  to the request is the multipart body under that same boundary. The request handed to
  \<^verbatim>\<open>Do\<close> carries both.
\<close>

theorem content_type_boundary_is_body_boundary:
  assumes "File opt = Some path"
    and "os_Open env path = Inr f" and "read_error f = None"
    and "Namespace opt = Some ns" and "Path opt = Some pa"
    and "NewRequest c ''POST'' ''groups/import'' NoOpt options = Inr req"
    and "SetBody_error c req = (\<lambda>b. None)"
  shows "bodies_set (snd (ImportFile c env (Some opt) options)) =
           [multipart_body (randomBoundary env)
              (submission_parts (Stringify env) opt (concat (chunks f)) ns pa)] \<and>
         headers_set (snd (ImportFile c env (Some opt) options)) =
           [(''Content-Type'', ''multipart/form-data; boundary='' @
              (if list_ex (\<lambda>ch. ch \<in> set tspecials) (randomBoundary env)
               then DQUOTE @ randomBoundary env @ DQUOTE else randomBoundary env))] \<and>
         headers_set (snd (ImportFile c env (Some opt) options)) =
           [(''Content-Type'', FormDataContentType (fst (snd (encode env (Some f) opt))))] \<and>
         requests_done (snd (ImportFile c env (Some opt) options)) =
           [req\<lparr>Body := Some (multipart_body (randomBoundary env)
                   (submission_parts (Stringify env) opt (concat (chunks f)) ns pa)),
                Header := (Header req)(''Content-Type'' \<mapsto>
                   FormDataContentType (fst (snd (encode env (Some f) opt))))\<rparr>]"
proof -
  from ImportFile_ok [OF assms(1-5), of c options] obtain w where
    w: "encode env (Some f) opt = (EncDone, w, [])"
      "requestBody w = multipart_body (randomBoundary env)
          (submission_parts (Stringify env) opt (concat (chunks f)) ns pa)"
      "boundary w = randomBoundary env"
      "ImportFile c env (Some opt) options =
         (fst (submit c w options),
          [EvOpen path] @ snd (submit c w options) @ [EvClose (Some path)])" by blast
  have s: "snd (submit c w options) =
             [EvNewRequest ''POST'' ''groups/import'', EvSetBody (requestBody w),
              EvSetHeader ''Content-Type'' (FormDataContentType w),
              EvDo (req\<lparr>Body := Some (requestBody w),
                  Header := (Header req)(''Content-Type'' \<mapsto> FormDataContentType w)\<rparr>)]"
    using assms(6,7)
    by (simp add: submit_def MethodPost_def Let_def split: prod.splits)
  have ct: "FormDataContentType w = ''multipart/form-data; boundary='' @
             (if list_ex (\<lambda>ch. ch \<in> set tspecials) (randomBoundary env)
              then DQUOTE @ randomBoundary env @ DQUOTE else randomBoundary env)"
    using w(3) by (simp add: FormDataContentType_def Let_def)
  have e: "fst (snd (encode env (Some f) opt)) = w" using w(1) by simp
  have "bodies_set (snd (ImportFile c env (Some opt) options)) = [requestBody w]"
    and "headers_set (snd (ImportFile c env (Some opt) options)) =
             [(''Content-Type'', FormDataContentType w)]"
    and "requests_done (snd (ImportFile c env (Some opt) options)) =
             [req\<lparr>Body := Some (requestBody w),
                  Header := (Header req)(''Content-Type'' \<mapsto> FormDataContentType w)\<rparr>]"
    unfolding w(4) by (simp_all add: s)
  then show ?thesis unfolding e using ct w(2) by simp
qed

theorem content_type_boundary_is_body_boundary_witness:
  "File submission = Some ''export.tar.gz'' \<and>
   os_Open double_env ''export.tar.gz'' =
     Inr \<lparr>chunks = [''ARCHIVE''], read_error = None\<rparr> \<and>
   read_error \<lparr>chunks = [''ARCHIVE''], read_error = None\<rparr> = None \<and>
   Namespace submission = Some ''ns'' \<and> Path submission = Some ''proj'' \<and>
   NewRequest (double_client ok_reply) ''POST'' ''groups/import'' NoOpt [] =
     Inr \<lparr>Method = ''POST'', URL = ''groups/import'', Body = None, Header = Map.empty\<rparr> \<and>
   SetBody_error (double_client ok_reply)
     \<lparr>Method = ''POST'', URL = ''groups/import'', Body = None, Header = Map.empty\<rparr> =
     (\<lambda>b. None) \<and>
   bodies_set (snd (ImportFile (double_client ok_reply) double_env
     (Some submission) [])) =
     [multipart_body ''B''
        [FilePart ''file'' ''group.*.tar.gz'' ''ARCHIVE'',
         FieldPart ''namespace'' ''ns'', FieldPart ''path'' ''proj'']] \<and>
   headers_set (snd (ImportFile (double_client ok_reply) double_env
     (Some submission) [])) = [(''Content-Type'', ''multipart/form-data; boundary=B'')]"
proof -
  have sb: "SetBody_error (double_client ok_reply)
     \<lparr>Method = ''POST'', URL = ''groups/import'', Body = None, Header = Map.empty\<rparr> =
     (\<lambda>b. None)"
    by (simp add: double_client_def)
  from content_type_boundary_is_body_boundary [of submission
      "''export.tar.gz''" double_env "\<lparr>chunks = [''ARCHIVE''], read_error = None\<rparr>" "''ns''" "''proj''"
      "double_client ok_reply" "[]"
      "\<lparr>Method = ''POST'', URL = ''groups/import'', Body = None, Header = Map.empty\<rparr>"] sb
  show ?thesis
    by (simp add: double_facts submission_parts_def optional_part_def tspecials_def DQUOTE_def)
qed

subsection \<open>C6: the overwrite flag\<close>

text \<open>
  C6. For every import submission whose file opens and is read to its end, the overwrite part
  holds exactly the text \<^verbatim>\<open>true\<close> when the flag is set to true and \<^verbatim>\<open>false\<close> when it is
  set to false, and stands between the name and the override parameters; when the flag is
  not set the body has no overwrite part.
\<close>

theorem overwrite_is_boolean_text:
  assumes "File opt = Some path"
    and "os_Open env path = Inr f" and "read_error f = None"
    and "Namespace opt = Some ns" and "Path opt = Some pa"
    and "NewRequest c ''POST'' ''groups/import'' NoOpt options = Inr req"
  shows "bodies_set (snd (ImportFile c env (Some opt) options)) =
           [multipart_body (randomBoundary env)
              ([FilePart ''file'' ''group.*.tar.gz'' (concat (chunks f)),
                FieldPart ''namespace'' ns, FieldPart ''path'' pa]
               @ optional_part ''name'' (Name opt)
               @ (case Overwrite opt of
                    None \<Rightarrow> []
                  | Some flag \<Rightarrow> [FieldPart ''overwrite'' (if flag then ''true'' else ''false'')])
               @ optional_part ''override_params''
                   (map_option (Stringify env) (OverrideParams opt)))]"
proof -
  from ImportFile_ok [OF assms(1-5), of c options] obtain w where
    w: "requestBody w = multipart_body (randomBoundary env)
          (submission_parts (Stringify env) opt (concat (chunks f)) ns pa)"
      "ImportFile c env (Some opt) options =
         (fst (submit c w options),
          [EvOpen path] @ snd (submit c w options) @ [EvClose (Some path)])" by blast
  have "bodies_set (snd (submit c w options)) = [requestBody w]"
    using assms(6)
    by (simp add: submit_def MethodPost_def Let_def split: option.splits prod.splits)
  then have b: "bodies_set (snd (ImportFile c env (Some opt) options)) = [requestBody w]"
    unfolding w(2) by (simp add: bodies_set_append)
  show ?thesis unfolding b w(1)
    by (simp add: submission_parts_def optional_part_def split: option.splits bool.splits)
qed

theorem overwrite_is_boolean_text_witness:
  "File (submission\<lparr>Overwrite := Some True\<rparr>) = Some ''export.tar.gz'' \<and>
   os_Open double_env ''export.tar.gz'' =
     Inr \<lparr>chunks = [''ARCHIVE''], read_error = None\<rparr> \<and>
   read_error \<lparr>chunks = [''ARCHIVE''], read_error = None\<rparr> = None \<and>
   Namespace (submission\<lparr>Overwrite := Some True\<rparr>) = Some ''ns'' \<and>
   Path (submission\<lparr>Overwrite := Some True\<rparr>) = Some ''proj'' \<and>
   NewRequest (double_client ok_reply) ''POST'' ''groups/import'' NoOpt [] =
     Inr \<lparr>Method = ''POST'', URL = ''groups/import'', Body = None, Header = Map.empty\<rparr> \<and>
   bodies_set (snd (ImportFile (double_client ok_reply) double_env
     (Some (submission\<lparr>Overwrite := Some True\<rparr>)) [])) =
     [multipart_body ''B''
        [FilePart ''file'' ''group.*.tar.gz'' ''ARCHIVE'',
         FieldPart ''namespace'' ''ns'', FieldPart ''path'' ''proj'',
         FieldPart ''overwrite'' ''true'']]"
  using overwrite_is_boolean_text [of "submission\<lparr>Overwrite := Some True\<rparr>"
      "''export.tar.gz''" double_env
      "\<lparr>chunks = [''ARCHIVE''], read_error = None\<rparr>" "''ns''" "''proj''"
      "double_client ok_reply" "[]"
      "\<lparr>Method = ''POST'', URL = ''groups/import'', Body = None, Header = Map.empty\<rparr>"]
  by (simp add: double_facts optional_part_def)

subsection \<open>C7: the bytes of a download\<close>

text \<open>
  C7. \<^verbatim>\<open>ExportDownload\<close> returns exactly the byte sequence the transport serves for the
  download endpoint: when the reference parses, the request is built and the transport
  answers it without an error, the bytes returned are the body served, byte for byte,
  beside the response and a nil error.
\<close>

theorem download_returns_served_bytes:
  assumes "parseID c p = Inr project"
    and "NewRequest c ''GET'' (''projects/'' @ pathEscape c project @ ''/export/download'')
           NoOpt options = Inr req"
    and "rp_err (transport c req) = None"
  shows "fst (ExportDownload c p options) =
           (Some (rp_body (transport c req)), rp_resp (transport c req), None)"
  using assms by (simp add: ExportDownload_def Do_Buffer_def MethodGet_def Let_def)

theorem download_returns_served_bytes_witness:
  "parseID (double_client ok_reply) (StringID ''7'') = Inr ''7'' \<and>
   NewRequest (double_client ok_reply) ''GET''
     (''projects/'' @ pathEscape (double_client ok_reply) ''7'' @ ''/export/download'') NoOpt [] =
     Inr \<lparr>Method = ''GET'', URL = ''projects/7/export/download'', Body = None,
          Header = Map.empty\<rparr> \<and>
   rp_err (transport (double_client ok_reply)
     \<lparr>Method = ''GET'', URL = ''projects/7/export/download'', Body = None,
      Header = Map.empty\<rparr>) = None \<and>
   fst (ExportDownload (double_client ok_reply) (StringID ''7'') []) =
     (Some ''archive bytes'', Some \<lparr>StatusCode = 200\<rparr>, None)"
proof -
  let ?c = "double_client ok_reply"
  let ?req = "\<lparr>Method = ''GET'', URL = ''projects/7/export/download'', Body = None,
               Header = Map.empty\<rparr>"
  have h1: "parseID ?c (StringID ''7'') = Inr ''7''"
    by (simp add: double_client_def)
  have h2: "NewRequest ?c ''GET'' (''projects/'' @ pathEscape ?c ''7'' @ ''/export/download'')
              NoOpt [] = Inr ?req"
    by (simp add: double_client_def)
  have h3: "rp_err (transport ?c ?req) = None"
    by (simp add: double_client_def ok_reply_def)
  from download_returns_served_bytes [OF h1 h2 h3] h1 h2 h3
  show ?thesis by (simp add: double_client_def ok_reply_def)
qed

subsection \<open>C8: a malformed project reference\<close>

text \<open>
  C8. For every malformed project reference, one that \<^verbatim>\<open>parseID\<close> rejects, each of
  \<^verbatim>\<open>ScheduleExport\<close>, \<^verbatim>\<open>ExportStatus\<close>, \<^verbatim>\<open>ExportDownload\<close> and \<^verbatim>\<open>ImportStatus\<close> returns
  the error of \<^verbatim>\<open>parseID\<close> and has performed no effect at all: no request was
  constructed and no transport call was made.
\<close>

theorem malformed_reference_returns_before_request:
  assumes "parseID c p = Inl err"
  shows "ScheduleExport c p opt options = ((None, Some err), []) \<and>
         ExportStatus c p options = ((None, None, Some err), []) \<and>
         ExportDownload c p options = ((None, None, Some err), []) \<and>
         ImportStatus c p options = ((None, None, Some err), [])"
  using assms
  by (simp add: ScheduleExport_def ExportStatus_def ExportDownload_def ImportStatus_def)

theorem malformed_reference_returns_before_request_witness:
  "parseID (double_client ok_reply) OtherID = Inl (Err ''invalid ID type'') \<and>
   ScheduleExport (double_client ok_reply) OtherID None [] =
     ((None, Some (Err ''invalid ID type'')), []) \<and>
   ExportStatus (double_client ok_reply) OtherID [] =
     ((None, None, Some (Err ''invalid ID type'')), []) \<and>
   ExportDownload (double_client ok_reply) OtherID [] =
     ((None, None, Some (Err ''invalid ID type'')), []) \<and>
   ImportStatus (double_client ok_reply) OtherID [] =
     ((None, None, Some (Err ''invalid ID type'')), [])"
proof -
  have h: "parseID (double_client ok_reply) OtherID = Inl (Err ''invalid ID type'')"
    by (simp add: double_client_def)
  from malformed_reference_returns_before_request [OF h, of None "[]"] h
  show ?thesis by simp
qed

subsection \<open>C9: methods and paths\<close>

text \<open>
  C9. For every project reference that parses to \<open>project\<close>, each operation calls
  \<^verbatim>\<open>NewRequest\<close> exactly once, with the method and the relative path of the interface
  table, where \<open>{p}\<close> is \<^verbatim>\<open>pathEscape(project)\<close>: \<^verbatim>\<open>ScheduleExport\<close> with \<^verbatim>\<open>POST\<close> and
  \<^verbatim>\<open>projects/{p}/export\<close>, \<^verbatim>\<open>ExportStatus\<close> with \<^verbatim>\<open>GET\<close> and the same path,
  \<^verbatim>\<open>ExportDownload\<close> with \<^verbatim>\<open>GET\<close> and \<^verbatim>\<open>projects/{p}/export/download\<close>, \<^verbatim>\<open>ImportStatus\<close>
  with \<^verbatim>\<open>GET\<close> and \<^verbatim>\<open>projects/{p}/import\<close>; and the request that \<^verbatim>\<open>NewRequest\<close> built for
  that method and path is the one the operation hands to \<^verbatim>\<open>Do\<close>, right after, so the
  request is issued. \<^verbatim>\<open>ImportFile\<close> never builds a request other than
  \<^verbatim>\<open>POST groups/import\<close>, builds that one whenever the encoding went through, and hands
  it to \<^verbatim>\<open>Do\<close> with the body and the content type set on it.
\<close>

theorem operations_issue_method_and_path:
  "(parseID c p = Inr project \<longrightarrow>
      new_requests (snd (ScheduleExport c p sopt options)) =
        [(''POST'', ''projects/'' @ pathEscape c project @ ''/export'')] \<and>
      new_requests (snd (ExportStatus c p options)) =
        [(''GET'', ''projects/'' @ pathEscape c project @ ''/export'')] \<and>
      new_requests (snd (ExportDownload c p options)) =
        [(''GET'', ''projects/'' @ pathEscape c project @ ''/export/download'')] \<and>
      new_requests (snd (ImportStatus c p options)) =
        [(''GET'', ''projects/'' @ pathEscape c project @ ''/import'')]) \<and>
   (new_requests (snd (ImportFile c env iopt options)) = [] \<or>
    new_requests (snd (ImportFile c env iopt options)) = [(''POST'', ''groups/import'')]) \<and>
   (File opt = Some path \<and> os_Open env path = Inr f \<and>
    read_error f = None \<and> Namespace opt = Some ns \<and> Path opt = Some pa \<longrightarrow>
      new_requests (snd (ImportFile c env (Some opt) options)) = [(''POST'', ''groups/import'')]) \<and>
   (parseID c p = Inr project \<and>
    NewRequest c ''POST'' (''projects/'' @ pathEscape c project @ ''/export'')
      (ExportOpt sopt) options = Inr req1 \<longrightarrow>
      ScheduleExport c p sopt options =
        (Do_nil c req1,
         [EvNewRequest ''POST'' (''projects/'' @ pathEscape c project @ ''/export''),
          EvDo req1])) \<and>
   (parseID c p = Inr project \<and>
    NewRequest c ''GET'' (''projects/'' @ pathEscape c project @ ''/export'')
      NoOpt options = Inr req2 \<longrightarrow>
      snd (ExportStatus c p options) =
        [EvNewRequest ''GET'' (''projects/'' @ pathEscape c project @ ''/export''),
         EvDo req2]) \<and>
   (parseID c p = Inr project \<and>
    NewRequest c ''GET'' (''projects/'' @ pathEscape c project @ ''/export/download'')
      NoOpt options = Inr req3 \<longrightarrow>
      snd (ExportDownload c p options) =
        [EvNewRequest ''GET'' (''projects/'' @ pathEscape c project @ ''/export/download''),
         EvDo req3]) \<and>
   (parseID c p = Inr project \<and>
    NewRequest c ''GET'' (''projects/'' @ pathEscape c project @ ''/import'')
      NoOpt options = Inr req4 \<longrightarrow>
      snd (ImportStatus c p options) =
        [EvNewRequest ''GET'' (''projects/'' @ pathEscape c project @ ''/import''),
         EvDo req4]) \<and>
   (File opt = Some path \<and> os_Open env path = Inr f \<and>
    read_error f = None \<and> Namespace opt = Some ns \<and> Path opt = Some pa \<and>
    NewRequest c ''POST'' ''groups/import'' NoOpt options = Inr req5 \<and>
    SetBody_error c req5 = (\<lambda>b. None) \<longrightarrow>
      snd (ImportFile c env (Some opt) options) =
        [EvOpen path,
         EvNewRequest ''POST'' ''groups/import'',
         EvSetBody (multipart_body (randomBoundary env)
           (submission_parts (Stringify env) opt (concat (chunks f)) ns pa)),
         EvSetHeader ''Content-Type''
           (FormDataContentType (fst (snd (encode env (Some f) opt)))),
         EvDo (req5\<lparr>Body := Some (multipart_body (randomBoundary env)
                  (submission_parts (Stringify env) opt (concat (chunks f)) ns pa)),
               Header := (Header req5)(''Content-Type'' \<mapsto>
                  FormDataContentType (fst (snd (encode env (Some f) opt))))\<rparr>),
         EvClose (Some path)])"
proof (intro conjI impI)
  assume p: "parseID c p = Inr project"
  show "new_requests (snd (ScheduleExport c p sopt options)) =
          [(''POST'', ''projects/'' @ pathEscape c project @ ''/export'')]"
    using p by (simp add: ScheduleExport_def MethodPost_def Let_def split: sum.splits)
  show "new_requests (snd (ExportStatus c p options)) =
          [(''GET'', ''projects/'' @ pathEscape c project @ ''/export'')]"
    using p by (simp add: ExportStatus_def MethodGet_def Let_def split: sum.splits prod.splits)
  show "new_requests (snd (ExportDownload c p options)) =
          [(''GET'', ''projects/'' @ pathEscape c project @ ''/export/download'')]"
    using p by (simp add: ExportDownload_def MethodGet_def Let_def split: sum.splits prod.splits)
  show "new_requests (snd (ImportStatus c p options)) =
          [(''GET'', ''projects/'' @ pathEscape c project @ ''/import'')]"
    using p by (simp add: ImportStatus_def MethodGet_def Let_def split: sum.splits prod.splits)
next
  show "new_requests (snd (ImportFile c env iopt options)) = [] \<or>
        new_requests (snd (ImportFile c env iopt options)) = [(''POST'', ''groups/import'')]"
    unfolding ImportFile_new_requests by (simp split: option.splits)
next
  assume a: "File opt = Some path \<and> os_Open env path = Inr f \<and>
    read_error f = None \<and> Namespace opt = Some ns \<and> Path opt = Some pa"
  then obtain w where "encode env (Some f) opt = (EncDone, w, [])"
    using encode_ok [of f opt ns pa env] by blast
  with a show "new_requests (snd (ImportFile c env (Some opt) options)) =
                 [(''POST'', ''groups/import'')]"
    unfolding ImportFile_new_requests by simp
next
  assume "parseID c p = Inr project \<and>
    NewRequest c ''POST'' (''projects/'' @ pathEscape c project @ ''/export'')
      (ExportOpt sopt) options = Inr req1"
  then show "ScheduleExport c p sopt options =
        (Do_nil c req1,
         [EvNewRequest ''POST'' (''projects/'' @ pathEscape c project @ ''/export''),
          EvDo req1])"
    by (simp add: ScheduleExport_def MethodPost_def Let_def)
next
  assume "parseID c p = Inr project \<and>
    NewRequest c ''GET'' (''projects/'' @ pathEscape c project @ ''/export'')
      NoOpt options = Inr req2"
  then show "snd (ExportStatus c p options) =
        [EvNewRequest ''GET'' (''projects/'' @ pathEscape c project @ ''/export''),
         EvDo req2]"
    by (simp add: ExportStatus_def MethodGet_def Let_def split: prod.splits)
next
  assume "parseID c p = Inr project \<and>
    NewRequest c ''GET'' (''projects/'' @ pathEscape c project @ ''/export/download'')
      NoOpt options = Inr req3"
  then show "snd (ExportDownload c p options) =
        [EvNewRequest ''GET'' (''projects/'' @ pathEscape c project @ ''/export/download''),
         EvDo req3]"
    by (simp add: ExportDownload_def MethodGet_def Let_def split: prod.splits)
next
  assume "parseID c p = Inr project \<and>
    NewRequest c ''GET'' (''projects/'' @ pathEscape c project @ ''/import'')
      NoOpt options = Inr req4"
  then show "snd (ImportStatus c p options) =
        [EvNewRequest ''GET'' (''projects/'' @ pathEscape c project @ ''/import''),
         EvDo req4]"
    by (simp add: ImportStatus_def MethodGet_def Let_def split: prod.splits)
next
  assume a: "File opt = Some path \<and> os_Open env path = Inr f \<and>
    read_error f = None \<and> Namespace opt = Some ns \<and> Path opt = Some pa \<and>
    NewRequest c ''POST'' ''groups/import'' NoOpt options = Inr req5 \<and>
    SetBody_error c req5 = (\<lambda>b. None)"
  then obtain w where
    w: "encode env (Some f) opt = (EncDone, w, [])"
      "requestBody w = multipart_body (randomBoundary env)
          (submission_parts (Stringify env) opt (concat (chunks f)) ns pa)"
      "ImportFile c env (Some opt) options =
         (fst (submit c w options),
          [EvOpen path] @ snd (submit c w options) @ [EvClose (Some path)])"
    using ImportFile_ok [of opt path env f ns pa c options] by blast
  have e: "fst (snd (encode env (Some f) opt)) = w" using w(1) by simp
  have "snd (submit c w options) =
          [EvNewRequest ''POST'' ''groups/import'', EvSetBody (requestBody w),
           EvSetHeader ''Content-Type'' (FormDataContentType w),
           EvDo (req5\<lparr>Body := Some (requestBody w),
                 Header := (Header req5)(''Content-Type'' \<mapsto> FormDataContentType w)\<rparr>)]"
    using a by (simp add: submit_def MethodPost_def Let_def split: prod.splits)
  then show "snd (ImportFile c env (Some opt) options) =
        [EvOpen path,
         EvNewRequest ''POST'' ''groups/import'',
         EvSetBody (multipart_body (randomBoundary env)
           (submission_parts (Stringify env) opt (concat (chunks f)) ns pa)),
         EvSetHeader ''Content-Type''
           (FormDataContentType (fst (snd (encode env (Some f) opt)))),
         EvDo (req5\<lparr>Body := Some (multipart_body (randomBoundary env)
                  (submission_parts (Stringify env) opt (concat (chunks f)) ns pa)),
               Header := (Header req5)(''Content-Type'' \<mapsto>
                  FormDataContentType (fst (snd (encode env (Some f) opt))))\<rparr>),
         EvClose (Some path)]"
    unfolding e w(3) by (simp add: w(2))
qed

theorem operations_issue_method_and_path_witness:
  "parseID (double_client ok_reply) (StringID ''7'') = Inr ''7'' \<and>
   new_requests (snd (ScheduleExport (double_client ok_reply) (StringID ''7'') None [])) =
     [(''POST'', ''projects/7/export'')] \<and>
   new_requests (snd (ExportStatus (double_client ok_reply) (StringID ''7'') [])) =
     [(''GET'', ''projects/7/export'')] \<and>
   new_requests (snd (ExportDownload (double_client ok_reply) (StringID ''7'') [])) =
     [(''GET'', ''projects/7/export/download'')] \<and>
   new_requests (snd (ImportStatus (double_client ok_reply) (StringID ''7'') [])) =
     [(''GET'', ''projects/7/import'')] \<and>
   File submission = Some ''export.tar.gz'' \<and>
   os_Open double_env ''export.tar.gz'' =
     Inr \<lparr>chunks = [''ARCHIVE''], read_error = None\<rparr> \<and>
   read_error \<lparr>chunks = [''ARCHIVE''], read_error = None\<rparr> = None \<and>
   Namespace submission = Some ''ns'' \<and> Path submission = Some ''proj'' \<and>
   new_requests (snd (ImportFile (double_client ok_reply) double_env
     (Some submission) [])) = [(''POST'', ''groups/import'')] \<and>
   NewRequest (double_client ok_reply) ''POST'' ''projects/7/export'' (ExportOpt None) [] =
     Inr \<lparr>Method = ''POST'', URL = ''projects/7/export'', Body = None, Header = Map.empty\<rparr> \<and>
   NewRequest (double_client ok_reply) ''GET'' ''projects/7/export'' NoOpt [] =
     Inr \<lparr>Method = ''GET'', URL = ''projects/7/export'', Body = None, Header = Map.empty\<rparr> \<and>
   NewRequest (double_client ok_reply) ''GET'' ''projects/7/export/download'' NoOpt [] =
     Inr \<lparr>Method = ''GET'', URL = ''projects/7/export/download'', Body = None,
          Header = Map.empty\<rparr> \<and>
   NewRequest (double_client ok_reply) ''GET'' ''projects/7/import'' NoOpt [] =
     Inr \<lparr>Method = ''GET'', URL = ''projects/7/import'', Body = None, Header = Map.empty\<rparr> \<and>
   NewRequest (double_client ok_reply) ''POST'' ''groups/import'' NoOpt [] =
     Inr \<lparr>Method = ''POST'', URL = ''groups/import'', Body = None, Header = Map.empty\<rparr> \<and>
   SetBody_error (double_client ok_reply)
     \<lparr>Method = ''POST'', URL = ''groups/import'', Body = None, Header = Map.empty\<rparr> =
     (\<lambda>b. None) \<and>
   requests_done (snd (ScheduleExport (double_client ok_reply) (StringID ''7'') None [])) =
     [\<lparr>Method = ''POST'', URL = ''projects/7/export'', Body = None, Header = Map.empty\<rparr>] \<and>
   requests_done (snd (ExportStatus (double_client ok_reply) (StringID ''7'') [])) =
     [\<lparr>Method = ''GET'', URL = ''projects/7/export'', Body = None, Header = Map.empty\<rparr>] \<and>
   requests_done (snd (ExportDownload (double_client ok_reply) (StringID ''7'') [])) =
     [\<lparr>Method = ''GET'', URL = ''projects/7/export/download'', Body = None,
       Header = Map.empty\<rparr>] \<and>
   requests_done (snd (ImportStatus (double_client ok_reply) (StringID ''7'') [])) =
     [\<lparr>Method = ''GET'', URL = ''projects/7/import'', Body = None, Header = Map.empty\<rparr>] \<and>
   map Method (requests_done (snd (ImportFile (double_client ok_reply) double_env
     (Some submission) []))) = [''POST''] \<and>
   map URL (requests_done (snd (ImportFile (double_client ok_reply) double_env
     (Some submission) []))) = [''groups/import''] \<and>
   map Body (requests_done (snd (ImportFile (double_client ok_reply) double_env
     (Some submission) []))) =
     [Some (multipart_body ''B''
        [FilePart ''file'' ''group.*.tar.gz'' ''ARCHIVE'',
         FieldPart ''namespace'' ''ns'', FieldPart ''path'' ''proj''])]"
proof -
  have sb: "SetBody_error (double_client ok_reply)
     \<lparr>Method = ''POST'', URL = ''groups/import'', Body = None, Header = Map.empty\<rparr> =
     (\<lambda>b. None)"
    by (simp add: double_client_def)
  from operations_issue_method_and_path [of "double_client ok_reply" "StringID ''7''" "''7''"
      None "[]" double_env "Some submission" submission "''export.tar.gz''"
      "\<lparr>chunks = [''ARCHIVE''], read_error = None\<rparr>" "''ns''" "''proj''"
      "\<lparr>Method = ''POST'', URL = ''projects/7/export'', Body = None, Header = Map.empty\<rparr>"
      "\<lparr>Method = ''GET'', URL = ''projects/7/export'', Body = None, Header = Map.empty\<rparr>"
      "\<lparr>Method = ''GET'', URL = ''projects/7/export/download'', Body = None,
        Header = Map.empty\<rparr>"
      "\<lparr>Method = ''GET'', URL = ''projects/7/import'', Body = None, Header = Map.empty\<rparr>"
      "\<lparr>Method = ''POST'', URL = ''groups/import'', Body = None, Header = Map.empty\<rparr>"] sb
  show ?thesis
    by (simp add: double_facts submission_parts_def optional_part_def)
qed

subsection \<open>C10: nil fields of the options\<close>




end
